theory Spec2Isabelle
  imports Main
begin

section \<open>The registry gateway (src/app/api/proxy/[...path]/route.ts)\<close>

subsection \<open>Header sets\<close>

text \<open>
  A Fetch \<open>Headers\<close> object is modelled as the list of its (name, value) entries.
  Header names are matched without regard to ASCII case, as \<open>Headers.delete\<close> and
  \<open>Headers.get\<close> do.
\<close>

type_synonym headers = "(string \<times> string) list"

definition ascii_lower :: "char \<Rightarrow> char" where
  "ascii_lower c =
     (let n = (of_char c :: nat) in if 65 \<le> n \<and> n \<le> 90 then char_of (n + 32) else c)"

definition lower_name :: "string \<Rightarrow> string" where
  "lower_name n = map ascii_lower n"

definition same_name :: "string \<Rightarrow> string \<Rightarrow> bool" where
  "same_name a b = (lower_name a = lower_name b)"

text \<open>\<open>headers.delete(name)\<close>: every entry with that name goes.\<close>

fun headers_delete :: "string \<Rightarrow> headers \<Rightarrow> headers" where
  "headers_delete n [] = []"
| "headers_delete n ((k, v) # hs) =
     (if same_name k n then headers_delete n hs else (k, v) # headers_delete n hs)"

text \<open>The values stored under a name, in order (\<open>headers.get\<close> joins them with a comma).\<close>

fun headers_values :: "string \<Rightarrow> headers \<Rightarrow> string list" where
  "headers_values n [] = []"
| "headers_values n ((k, v) # hs) =
     (if same_name k n then v # headers_values n hs else headers_values n hs)"

definition headers_has :: "string \<Rightarrow> headers \<Rightarrow> bool" where
  "headers_has n hs = (headers_values n hs \<noteq> [])"

text \<open>
  \<open>sanitizeHeaders\<close>: copy the header set, delete \<open>Host\<close> and \<open>Authorization\<close>,
  return the copy.
\<close>

definition sanitizeHeaders :: "headers \<Rightarrow> headers" where
  "sanitizeHeaders hs =
     (let sanitizedHeaders = hs;
          sanitizedHeaders = headers_delete ''Host'' sanitizedHeaders;
          sanitizedHeaders = headers_delete ''Authorization'' sanitizedHeaders
      in sanitizedHeaders)"

subsection \<open>Path translation\<close>

text \<open>The inbound request: the path of its URL, its headers and its body text.\<close>

record next_request =
  pathname :: string
  req_headers :: headers
  req_text :: string

text \<open>\<open>pathname.replace(/^\/api\/proxy/, "")\<close>: the prefix goes when the path starts with it.\<close>

definition strip_proxy_prefix :: "string \<Rightarrow> string" where
  "strip_proxy_prefix p =
     (if take (length ''/api/proxy'') p = ''/api/proxy''
      then drop (length ''/api/proxy'') p else p)"

text \<open>
  \<open>buildRegistryUrl\<close>. The constant \<open>REGISTRY_URL\<close> is read from the environment; it is
  the first argument here.
\<close>

definition buildRegistryUrl :: "string \<Rightarrow> next_request \<Rightarrow> string \<times> headers" where
  "buildRegistryUrl REGISTRY_URL req =
     (let registryPath = strip_proxy_prefix (pathname req);
          registryPath = (if registryPath = [] then ''/'' else registryPath);
          url = REGISTRY_URL @ ''/v2'' @ registryPath;
          hdrs = sanitizeHeaders (req_headers req)
      in (url, hdrs))"

subsection \<open>The upstream registry, the trace of a handler, and responses\<close>

text \<open>
  What \<open>fetch(url, { method, headers, body })\<close> is called with. A body that is
  \<open>undefined\<close> (the argument was not passed) is \<open>None\<close>.
\<close>

record fetch_request =
  fr_method :: string
  fr_url :: string
  fr_headers :: headers
  fr_body :: "string option"

record fetch_response =
  rs_status :: nat
  rs_statusText :: string
  rs_headers :: headers
  rs_body :: string

text \<open>
  \<open>fetch\<close> either rejects (a transport-level failure: connection refused, timeout,
  DNS failure) or resolves with a response of any status.
\<close>

datatype fetch_outcome = Rejected | Resolved fetch_response

text \<open>
  The upstream registry is any state machine: given its state and a request it yields
  an outcome and its next state.
\<close>

type_synonym 'w upstream = "'w \<Rightarrow> fetch_request \<Rightarrow> fetch_outcome \<times> 'w"

text \<open>
  Everything a handler does besides returning: the upstream calls, the waits
  (milliseconds) and the console output, one constructor for each logging site.
\<close>

datatype event =
    Fetch fetch_request
  | Wait nat
  | LogRequest string string
  | LogFetch string string
  | LogResponse nat string
  | LogRequestHeaders nat headers
  | ErrorFetch string
  | ErrorRegistryApi nat string
  | WarnCacheMiss string string nat nat
  | WarnRetrying string nat nat

record 'w gateway =
  upstream_state :: 'w
  trace :: "event list"

definition emit :: "event \<Rightarrow> 'w gateway \<Rightarrow> 'w gateway" where
  "emit e s = s\<lparr>trace := trace s @ [e]\<rparr>"

text \<open>
  A \<open>NextResponse\<close>: either \<open>NextResponse.json({ error: msg }, { status })\<close> or the
  upstream body passed through with the upstream headers.
\<close>

datatype response_body = JsonError string | PassThrough string

record next_response =
  nr_status :: nat
  nr_headers :: headers
  nr_body :: response_body

definition json_error :: "string \<Rightarrow> nat \<Rightarrow> next_response" where
  "json_error msg st =
     \<lparr>nr_status = st, nr_headers = [(''content-type'', ''application/json'')],
      nr_body = JsonError msg\<rparr>"

definition handleErrorResponse :: "string \<Rightarrow> 'w gateway \<Rightarrow> next_response \<times> 'w gateway" where
  "handleErrorResponse message s =
     (json_error ''Internal server error'' 500, emit (ErrorFetch message) s)"

text \<open>What a \<open>throw\<close> carries; a rejected promise is \<open>Inl\<close> of it.\<close>

datatype js_error = URIError | TypeError | RangeError | AxiosError | PlainError

text \<open>
  \<open>NextResponse.json(body, { status })\<close> builds a response with a body, and the
  \<open>Response\<close> constructor under it refuses two kinds of status: one outside 200 to 599
  (a RangeError) and a null-body status, 204, 205 or 304 (a TypeError).
\<close>

definition json_status_error :: "nat \<Rightarrow> js_error option" where
  "json_status_error st =
     (if st < 200 \<or> 599 < st then Some RangeError
      else if st = 204 \<or> st = 205 \<or> st = 304 then Some TypeError
      else None)"

definition NextResponse_json :: "string \<Rightarrow> nat \<Rightarrow> js_error + next_response" where
  "NextResponse_json msg st =
     (case json_status_error st of Some e \<Rightarrow> Inl e | None \<Rightarrow> Inr (json_error msg st))"

text \<open>\<open>response.ok\<close>: the status is in the range 200 to 299.\<close>

definition response_ok :: "fetch_response \<Rightarrow> bool" where
  "response_ok r = (200 \<le> rs_status r \<and> rs_status r \<le> 299)"

text \<open>
  \<open>handleFetchResponse\<close>: for a status that is not ok, the console line and then
  \<open>NextResponse.json\<close> with the upstream status, which may throw; otherwise the upstream
  body, headers and status passed on (\<open>fetch\<close> gives a null body with 204 and 205, so
  that constructor call does not throw).
\<close>

definition handleFetchResponse ::
  "fetch_response \<Rightarrow> 'w gateway \<Rightarrow> (js_error + next_response) \<times> 'w gateway" where
  "handleFetchResponse response s =
     (if \<not> response_ok response then
        (NextResponse_json
           (if rs_statusText response \<noteq> [] then rs_statusText response
            else ''Failed to fetch from registry'')
           (rs_status response),
         emit (ErrorRegistryApi (rs_status response) (rs_statusText response)) s)
      else
        (Inr \<lparr>nr_status = rs_status response, nr_headers = rs_headers response,
              nr_body = PassThrough (rs_body response)\<rparr>, s))"

text \<open>One call of \<open>fetch\<close>: recorded in the trace, answered by the upstream.\<close>

definition do_fetch ::
  "'w upstream \<Rightarrow> fetch_request \<Rightarrow> 'w gateway \<Rightarrow> fetch_outcome \<times> 'w gateway" where
  "do_fetch up rq s =
     (case up (upstream_state s) rq of
        (out, w') \<Rightarrow> (out, emit (Fetch rq) (s\<lparr>upstream_state := w'\<rparr>)))"

subsection \<open>The two fetchers\<close>

text \<open>
  \<open>simpleFetch\<close>: the \<open>fetch\<close>, the console line and \<open>handleFetchResponse\<close> are all
  inside the \<open>try\<close> block, so a rejected \<open>fetch\<close> and a throw of
  \<open>handleFetchResponse\<close> both reach the \<open>catch\<close> block.
\<close>

definition simpleFetch ::
  "'w upstream \<Rightarrow> string \<Rightarrow> string \<Rightarrow> headers \<Rightarrow> string option \<Rightarrow> 'w gateway
     \<Rightarrow> next_response \<times> 'w gateway" where
  "simpleFetch up method url hdrs body s =
     (case do_fetch up
             \<lparr>fr_method = method, fr_url = url, fr_headers = hdrs, fr_body = body\<rparr> s of
        (Rejected, s1) \<Rightarrow> handleErrorResponse (''['' @ method @ ''] Fetch error'') s1
      | (Resolved response, s1) \<Rightarrow>
          (case handleFetchResponse response
                  (emit (LogResponse (rs_status response) method) s1) of
             (Inr result, s2) \<Rightarrow> (result, s2)
           | (Inl e, s2) \<Rightarrow> handleErrorResponse (''['' @ method @ ''] Fetch error'') s2))"

definition maxRetries :: nat where
  "maxRetries = 3"

text \<open>
  The \<open>while (retryCount <= maxRetries)\<close> loop of \<open>performFetch\<close>, entered with the
  current \<open>retryCount\<close>. A rejected \<open>fetch\<close> and a throw of \<open>handleFetchResponse\<close>
  both go to the \<open>catch\<close> block.
\<close>

function performFetch_loop ::
  "'w upstream \<Rightarrow> string \<Rightarrow> string \<Rightarrow> headers \<Rightarrow> string option \<Rightarrow> nat \<Rightarrow> 'w gateway
     \<Rightarrow> next_response \<times> 'w gateway" where
  "performFetch_loop up method url hdrs body retryCount s =
     (if retryCount \<le> maxRetries then
        (case do_fetch up
                \<lparr>fr_method = method, fr_url = url, fr_headers = hdrs, fr_body = body\<rparr>
                (emit (LogRequestHeaders 1 hdrs) s) of
           (Resolved response, s1) \<Rightarrow>
             (if rs_status response = 304 then
                (if retryCount + 1 > maxRetries then
                   (json_error ''Cache miss after max retries.'' 404,
                    emit (WarnCacheMiss method url (retryCount + 1) maxRetries)
                      (emit (LogRequestHeaders 2 hdrs) s1))
                 else
                   performFetch_loop up method url hdrs body (retryCount + 1)
                     (emit (Wait 1000)
                        (emit (WarnCacheMiss method url (retryCount + 1) maxRetries)
                           (emit (LogRequestHeaders 2 hdrs) s1))))
              else
                (case handleFetchResponse response
                        (emit (LogResponse (rs_status response) method)
                           (emit (LogRequestHeaders 2 hdrs) s1)) of
                   (Inr result, s2) \<Rightarrow> (result, s2)
                 | (Inl e, s2) \<Rightarrow>
                     (if retryCount \<ge> maxRetries then
                        handleErrorResponse
                          (''['' @ method @ ''] Fetch error after max retries'') s2
                      else
                        performFetch_loop up method url hdrs body (retryCount + 1)
                          (emit (WarnRetrying method (retryCount + 1) maxRetries) s2))))
         | (Rejected, s1) \<Rightarrow>
             (if retryCount \<ge> maxRetries then
                handleErrorResponse (''['' @ method @ ''] Fetch error after max retries'') s1
              else
                performFetch_loop up method url hdrs body (retryCount + 1)
                  (emit (WarnRetrying method (retryCount + 1) maxRetries) s1)))
      else
        (json_error ''Unexpected error during fetch.'' 500, s))"
  by pat_completeness auto
termination
  by (relation "measure (\<lambda>(up, method, url, hdrs, body, retryCount, s). Suc maxRetries - retryCount)")
     (auto simp: maxRetries_def)

declare performFetch_loop.simps [simp del]

definition performFetch ::
  "'w upstream \<Rightarrow> string \<Rightarrow> string \<Rightarrow> headers \<Rightarrow> string option \<Rightarrow> 'w gateway
     \<Rightarrow> next_response \<times> 'w gateway" where
  "performFetch up method url hdrs body s = performFetch_loop up method url hdrs body 0 s"

subsection \<open>The four handlers\<close>

definition GET :: "'w upstream \<Rightarrow> string \<Rightarrow> next_request \<Rightarrow> 'w gateway \<Rightarrow> next_response \<times> 'w gateway" where
  "GET up REGISTRY_URL req s =
     (case buildRegistryUrl REGISTRY_URL req of
        (url, hdrs) \<Rightarrow>
          simpleFetch up ''GET'' url hdrs None
            (emit (LogFetch url ''GET'') (emit (LogRequest ''GET'' (pathname req)) s)))"

text \<open>\<open>POST\<close> reads the body text of the request and calls \<open>simpleFetch\<close> with three arguments.\<close>

definition POST :: "'w upstream \<Rightarrow> string \<Rightarrow> next_request \<Rightarrow> 'w gateway \<Rightarrow> next_response \<times> 'w gateway" where
  "POST up REGISTRY_URL req s =
     (case buildRegistryUrl REGISTRY_URL req of
        (url, hdrs) \<Rightarrow>
          (let body = req_text req in
           simpleFetch up ''POST'' url hdrs None
             (emit (LogFetch url ''POST'') (emit (LogRequest ''POST'' (pathname req)) s))))"

definition PUT :: "'w upstream \<Rightarrow> string \<Rightarrow> next_request \<Rightarrow> 'w gateway \<Rightarrow> next_response \<times> 'w gateway" where
  "PUT up REGISTRY_URL req s =
     (case buildRegistryUrl REGISTRY_URL req of
        (url, hdrs) \<Rightarrow>
          (let body = req_text req in
           simpleFetch up ''PUT'' url hdrs (Some body)
             (emit (LogFetch url ''PUT'') (emit (LogRequest ''PUT'' (pathname req)) s))))"

definition DELETE :: "'w upstream \<Rightarrow> string \<Rightarrow> next_request \<Rightarrow> 'w gateway \<Rightarrow> next_response \<times> 'w gateway" where
  "DELETE up REGISTRY_URL req s =
     (case buildRegistryUrl REGISTRY_URL req of
        (url, hdrs) \<Rightarrow>
          simpleFetch up ''DELETE'' url hdrs None
            (emit (LogFetch url ''DELETE'') (emit (LogRequest ''DELETE'' (pathname req)) s)))"

text \<open>A response that \<open>handleFetchResponse\<close> turns into a result without throwing.\<close>

definition forwardable :: "fetch_response \<Rightarrow> bool" where
  "forwardable r = (response_ok r \<or> json_status_error (rs_status r) = None)"

text \<open>The upstream calls of a trace, and its waits, in order.\<close>

fun fetches :: "event list \<Rightarrow> fetch_request list" where
  "fetches [] = []"
| "fetches (Fetch rq # es) = rq # fetches es"
| "fetches (e # es) = fetches es"

fun waits :: "event list \<Rightarrow> nat list" where
  "waits [] = []"
| "waits (Wait ms # es) = ms # waits es"
| "waits (e # es) = waits es"

subsection \<open>Upstream doubles for the gateway\<close>

text \<open>
  Concrete upstreams and requests on which the handlers are run: an upstream that always
  answers 404, one that is never reached, one that fails at the transport level once
  and answers from then on, one that answers 304 twice and then 200, and one that always
  answers 304.
\<close>

definition ok_response :: fetch_response where
  "ok_response =
     \<lparr>rs_status = 200, rs_statusText = ''OK'',
      rs_headers = [(''content-type'', ''application/json'')], rs_body = ''{}''\<rparr>"


definition not_found_response :: fetch_response where
  "not_found_response =
     \<lparr>rs_status = 404, rs_statusText = ''Not Found'', rs_headers = [], rs_body = ''{}''\<rparr>"

definition missing_upstream :: "unit upstream" where
  "missing_upstream w rq = (Resolved not_found_response, w)"

definition unreachable_upstream :: "unit upstream" where
  "unreachable_upstream w rq = (Rejected, w)"

definition recovering_upstream :: "nat upstream" where
  "recovering_upstream n rq = (if n = 0 then Rejected else Resolved ok_response, Suc n)"



definition catalog_request :: next_request where
  "catalog_request =
     \<lparr>pathname = ''/api/proxy/_catalog'',
      req_headers = [(''host'', ''localhost:8080''), (''accept'', ''application/json'')],
      req_text = []\<rparr>"

definition upload_request :: next_request where
  "upload_request =
     \<lparr>pathname = ''/api/proxy/library/app/blobs/uploads/'',
      req_headers = [(''host'', ''localhost:8080''), (''content-type'', ''text/plain'')],
      req_text = ''payload''\<rparr>"

section \<open>The registry client (src/lib/apiClient.ts)\<close>

subsection \<open>Values, errors and the axios instance\<close>

text \<open>A parsed response body, or any other JavaScript value a function returns.\<close>

datatype json =
    JUndefined
  | JNull
  | JBool bool
  | JNum int
  | JStr string
  | JArr "json list"
  | JObj "(string \<times> json) list"

text \<open>
  \<open>value.key\<close> for the keys this client reads (\<open>repositories\<close>, \<open>tags\<close>): a TypeError
  on \<open>null\<close> and \<open>undefined\<close>, the member of an object, \<open>undefined\<close> otherwise.
\<close>

fun get_property :: "json \<Rightarrow> string \<Rightarrow> js_error + json" where
  "get_property JUndefined k = Inl TypeError"
| "get_property JNull k = Inl TypeError"
| "get_property (JObj kvs) k =
     Inr (case map_of (rev kvs) k of Some v \<Rightarrow> v | None \<Rightarrow> JUndefined)"
| "get_property v k = Inr JUndefined"

record axios_request =
  ax_method :: string
  ax_url :: string
  ax_headers :: headers

record axios_response =
  ar_status :: nat
  ar_headers :: headers
  ar_data :: json

text \<open>The adapter either fails (no response: network error, timeout) or gets a response.\<close>

datatype axios_outcome = NetworkError | Answered axios_response

type_synonym 'w registry = "'w \<Rightarrow> axios_request \<Rightarrow> axios_outcome \<times> 'w"

text \<open>The requests sent and the console output of the client, one constructor for each site.\<close>

datatype client_event =
    Sent axios_request
  | LogApiError
  | ErrorFetchRepositories
  | ErrorFetchTags string
  | LogManifestFailed string string string
  | ErrorManifestFailed string string string
  | ErrorFetchBlob string string string
  | LogTagDeleted string string
  | ErrorTagDeleteFailed string string

text \<open>
  The state around the client: the service behind the gateway, the \<open>auth_token\<close> item
  of the local storage, and what has been sent and logged so far.
\<close>

record 'w client =
  registry_state :: 'w
  auth_token :: "string option"
  events :: "client_event list"

definition observe :: "client_event \<Rightarrow> 'w client \<Rightarrow> 'w client" where
  "observe e s = s\<lparr>events := events s @ [e]\<rparr>"

definition headers_set :: "string \<Rightarrow> string \<Rightarrow> headers \<Rightarrow> headers" where
  "headers_set n v hs = headers_delete n hs @ [(n, v)]"

fun join_values :: "string list \<Rightarrow> string" where
  "join_values [] = []"
| "join_values [v] = v"
| "join_values (v # vs) = v @ '', '' @ join_values vs"

text \<open>\<open>headers[name]\<close> of a response: absent (\<open>undefined\<close>) or the value.\<close>

definition headers_get :: "string \<Rightarrow> headers \<Rightarrow> string option" where
  "headers_get n hs =
     (case headers_values n hs of [] \<Rightarrow> None | vs \<Rightarrow> Some (join_values vs))"

text \<open>The headers of \<open>axios.create\<close>, overridden by the headers of the call.\<close>

definition instance_headers :: headers where
  "instance_headers = [(''Content-Type'', ''application/json'')]"

fun merge_headers :: "headers \<Rightarrow> headers \<Rightarrow> headers" where
  "merge_headers base [] = base"
| "merge_headers base ((k, v) # hs) = merge_headers (headers_set k v base) hs"

text \<open>JavaScript truthiness of a \<open>string | null | undefined\<close>.\<close>

definition truthy :: "string option \<Rightarrow> bool" where
  "truthy x = (case x of None \<Rightarrow> False | Some v \<Rightarrow> v \<noteq> [])"

text \<open>The request interceptor.\<close>

definition request_interceptor :: "string option \<Rightarrow> axios_request \<Rightarrow> axios_request" where
  "request_interceptor token config =
     (let h = headers_set ''Cache-Control'' ''no-cache'' (ax_headers config);
          h = headers_delete ''if-none-match'' h;
          h = headers_delete ''if-modified-since'' h;
          h = (if truthy token then headers_set ''Authorization'' (''Bearer '' @ the token) h
               else h)
      in config\<lparr>ax_headers := h\<rparr>)"

definition default_validateStatus :: "nat \<Rightarrow> bool" where
  "default_validateStatus status = (200 \<le> status \<and> status < 300)"

text \<open>
  The configuration the adapter receives: the headers of the instance, overridden by
  those of the call, then the request interceptor with the stored token.
\<close>

definition config_of :: "string option \<Rightarrow> string \<Rightarrow> string \<Rightarrow> headers \<Rightarrow> axios_request" where
  "config_of token method url hdrs =
     request_interceptor token
       \<lparr>ax_method = method, ax_url = url,
        ax_headers = merge_headers instance_headers hdrs\<rparr>"

text \<open>
  One request through the instance: the request interceptor, the adapter, the status
  validation, and the response interceptor, which logs a failure and rejects again.
\<close>

definition apiClient_request ::
  "'w registry \<Rightarrow> string \<Rightarrow> string \<Rightarrow> headers \<Rightarrow> (nat \<Rightarrow> bool) \<Rightarrow> 'w client
     \<Rightarrow> (js_error + axios_response) \<times> 'w client" where
  "apiClient_request reg method url hdrs validateStatus s =
     (let config = config_of (auth_token s) method url hdrs
      in case reg (registry_state s) config of
           (out, w') \<Rightarrow>
             (let s1 = observe (Sent config) (s\<lparr>registry_state := w'\<rparr>)
              in case out of
                   NetworkError \<Rightarrow> (Inl AxiosError, observe LogApiError s1)
                 | Answered response \<Rightarrow>
                     (if validateStatus (ar_status response) then (Inr response, s1)
                      else (Inl AxiosError, observe LogApiError s1))))"

definition apiClient_get ::
  "'w registry \<Rightarrow> string \<Rightarrow> headers \<Rightarrow> (nat \<Rightarrow> bool) \<Rightarrow> 'w client
     \<Rightarrow> (js_error + axios_response) \<times> 'w client" where
  "apiClient_get reg url hdrs validateStatus s =
     apiClient_request reg ''get'' url hdrs validateStatus s"

definition apiClient_delete ::
  "'w registry \<Rightarrow> string \<Rightarrow> 'w client \<Rightarrow> (js_error + axios_response) \<times> 'w client" where
  "apiClient_delete reg url s =
     apiClient_request reg ''delete'' url [] default_validateStatus s"

subsection \<open>Listing repositories and tags\<close>

text \<open>
  Each operation is an \<open>async\<close> function: its result is how its promise settles,
  \<open>Inr\<close> a value or \<open>Inl\<close> an error. A \<open>try\<close> block is a computation of that type and
  the \<open>catch\<close> block is the case \<open>Inl\<close>.
\<close>

definition fetchRepositories :: "'w registry \<Rightarrow> 'w client \<Rightarrow> (js_error + json) \<times> 'w client" where
  "fetchRepositories reg s =
     (case (case apiClient_get reg ''/proxy/_catalog'' [] default_validateStatus s of
              (Inl e, s1) \<Rightarrow> (Inl e, s1)
            | (Inr response, s1) \<Rightarrow> (get_property (ar_data response) ''repositories'', s1)) of
        (Inr v, s1) \<Rightarrow> (Inr v, s1)
      | (Inl e, s1) \<Rightarrow> (Inr (JArr []), observe ErrorFetchRepositories s1))"

definition fetchTags :: "'w registry \<Rightarrow> string \<Rightarrow> 'w client \<Rightarrow> (js_error + json) \<times> 'w client" where
  "fetchTags reg repository s =
     (case (case apiClient_get reg (''/proxy/'' @ repository @ ''/tags/list'') []
                    default_validateStatus s of
              (Inl e, s1) \<Rightarrow> (Inl e, s1)
            | (Inr response, s1) \<Rightarrow> (get_property (ar_data response) ''tags'', s1)) of
        (Inr v, s1) \<Rightarrow> (Inr v, s1)
      | (Inl e, s1) \<Rightarrow> (Inr (JArr []), observe (ErrorFetchTags repository) s1))"

subsection \<open>Resolving a manifest\<close>

text \<open>
  The object \<open>{ digest, data }\<close>; the digest is \<open>undefined\<close> (\<open>None\<close>) when the response
  has no \<open>docker-content-digest\<close> header.
\<close>

record manifest_result =
  mr_digest :: "string option"
  mr_data :: json

definition manifest_of :: "axios_response \<Rightarrow> manifest_result" where
  "manifest_of response =
     \<lparr>mr_digest = headers_get ''docker-content-digest'' (ar_headers response),
      mr_data = ar_data response\<rparr>"

definition manifest_url :: "string \<Rightarrow> string \<Rightarrow> string" where
  "manifest_url repository reference = ''proxy/'' @ repository @ ''/manifests/'' @ reference"

definition mediaTypes :: "string list" where
  "mediaTypes =
     [''application/vnd.docker.distribution.manifest.v2+json'',
      ''application/vnd.oci.image.index.v1+json'']"

text \<open>The branch taken when \<open>mediaType\<close> is truthy: one request.\<close>

definition fetchManifests_explicit ::
  "'w registry \<Rightarrow> string \<Rightarrow> string \<Rightarrow> string \<Rightarrow> 'w client
     \<Rightarrow> manifest_result option \<times> 'w client" where
  "fetchManifests_explicit reg repository reference mediaType s =
     (case (case apiClient_get reg (manifest_url repository reference)
                    [(''Accept'', mediaType)] default_validateStatus s of
              (Inl e, s1) \<Rightarrow> (Inl e, s1)
            | (Inr response, s1) \<Rightarrow>
                (if ar_status response \<noteq> 200 then (Inl PlainError, s1)
                 else (Inr (manifest_of response), s1))) of
        (Inr m, s1) \<Rightarrow> (Some m, s1)
      | (Inl e, s1) \<Rightarrow> (None, observe (LogManifestFailed repository reference mediaType) s1))"

text \<open>
  The \<open>for (const mediaType of mediaTypes)\<close> loop over the candidates that are left;
  falling out of the loop reaches \<open>return null\<close>.
\<close>

fun fetchManifests_probe ::
  "'w registry \<Rightarrow> string \<Rightarrow> string \<Rightarrow> string list \<Rightarrow> 'w client
     \<Rightarrow> manifest_result option \<times> 'w client" where
  "fetchManifests_probe reg repository reference [] s = (None, s)"
| "fetchManifests_probe reg repository reference (mediaType # rest) s =
     (case apiClient_get reg (manifest_url repository reference)
             [(''Accept'', mediaType)] (\<lambda>status. status = 200 \<or> status = 404) s of
        (Inr response, s1) \<Rightarrow>
          (if ar_status response = 200 then (Some (manifest_of response), s1)
           else fetchManifests_probe reg repository reference rest s1)
      | (Inl e, s1) \<Rightarrow>
          fetchManifests_probe reg repository reference rest
            (observe (ErrorManifestFailed repository reference mediaType) s1))"

definition fetchManifests ::
  "'w registry \<Rightarrow> string \<Rightarrow> string \<Rightarrow> string option \<Rightarrow> 'w client
     \<Rightarrow> (js_error + manifest_result option) \<times> 'w client" where
  "fetchManifests reg repository reference mediaType s =
     (if truthy mediaType then
        (case fetchManifests_explicit reg repository reference (the mediaType) s of
           (r, s1) \<Rightarrow> (Inr r, s1))
      else
        (case fetchManifests_probe reg repository reference mediaTypes s of
           (r, s1) \<Rightarrow> (Inr r, s1)))"

subsection \<open>Fetching a blob\<close>

text \<open>
  \<open>decodeURIComponent\<close> on a string given as its UTF-8 bytes: every \<open>%XY\<close> escape
  becomes the byte \<open>XY\<close>, the bytes of the escapes must form well-formed UTF-8, and
  a \<open>%\<close> that does not start an escape, or an ill-formed sequence, throws a URIError.
\<close>

definition hex_val :: "char \<Rightarrow> nat option" where
  "hex_val c =
     (let n = (of_char c :: nat)
      in if 48 \<le> n \<and> n \<le> 57 then Some (n - 48)
         else if 65 \<le> n \<and> n \<le> 70 then Some (n - 55)
         else if 97 \<le> n \<and> n \<le> 102 then Some (n - 87)
         else None)"

text \<open>The number of leading one bits of a byte from 128 on (5 stands for "more than 4").\<close>

definition leading_ones :: "nat \<Rightarrow> nat" where
  "leading_ones b =
     (if b < 192 then 1 else if b < 224 then 2 else if b < 240 then 3
      else if b < 248 then 4 else 5)"

definition is_cont :: "nat \<Rightarrow> bool" where
  "is_cont b = (128 \<le> b \<and> b \<le> 191)"

fun utf8_valid :: "nat list \<Rightarrow> bool" where
  "utf8_valid [b0, b1] = (194 \<le> b0 \<and> b0 \<le> 223 \<and> is_cont b1)"
| "utf8_valid [b0, b1, b2] =
     ((b0 = 224 \<and> 160 \<le> b1 \<and> b1 \<le> 191 \<or> 225 \<le> b0 \<and> b0 \<le> 236 \<and> is_cont b1 \<or>
       b0 = 237 \<and> 128 \<le> b1 \<and> b1 \<le> 159 \<or> 238 \<le> b0 \<and> b0 \<le> 239 \<and> is_cont b1) \<and>
      is_cont b2)"
| "utf8_valid [b0, b1, b2, b3] =
     ((b0 = 240 \<and> 144 \<le> b1 \<and> b1 \<le> 191 \<or> 241 \<le> b0 \<and> b0 \<le> 243 \<and> is_cont b1 \<or>
       b0 = 244 \<and> 128 \<le> b1 \<and> b1 \<le> 143) \<and>
      is_cont b2 \<and> is_cont b3)"
| "utf8_valid bs = False"

text \<open>The next \<open>k\<close> escapes of the string, as bytes.\<close>

fun take_escapes :: "nat \<Rightarrow> string \<Rightarrow> nat list option" where
  "take_escapes 0 cs = Some []"
| "take_escapes (Suc k) (p # a # b # rest) =
     (if p = CHR ''%'' then
        (case (hex_val a, hex_val b) of
           (Some x, Some y) \<Rightarrow>
             (case take_escapes k rest of
                Some bs \<Rightarrow> Some ((16 * x + y) # bs)
              | None \<Rightarrow> None)
         | _ \<Rightarrow> None)
      else None)"
| "take_escapes (Suc k) cs = None"

fun decodeURIComponent :: "string \<Rightarrow> js_error + string" where
  "decodeURIComponent [] = Inr []"
| "decodeURIComponent (c # cs) =
     (if c \<noteq> CHR ''%'' then
        (case decodeURIComponent cs of Inl e \<Rightarrow> Inl e | Inr r \<Rightarrow> Inr (c # r))
      else
        (case cs of
           a # b # rest \<Rightarrow>
             (case (hex_val a, hex_val b) of
                (Some x, Some y) \<Rightarrow>
                  (if 16 * x + y < 128 then
                     (case decodeURIComponent rest of
                        Inl e \<Rightarrow> Inl e
                      | Inr r \<Rightarrow> Inr (char_of (16 * x + y) # r))
                   else if leading_ones (16 * x + y) = 1 \<or> leading_ones (16 * x + y) > 4
                   then Inl URIError
                   else
                     (case take_escapes (leading_ones (16 * x + y) - 1) rest of
                        None \<Rightarrow> Inl URIError
                      | Some bs \<Rightarrow>
                          (if utf8_valid ((16 * x + y) # bs) then
                             (case decodeURIComponent
                                     (drop (3 * (leading_ones (16 * x + y) - 1)) rest) of
                                Inl e \<Rightarrow> Inl e
                              | Inr r \<Rightarrow> Inr (map char_of ((16 * x + y) # bs) @ r))
                           else Inl URIError)))
              | _ \<Rightarrow> Inl URIError)
         | _ \<Rightarrow> Inl URIError))"

text \<open>\<open>fetchBlob\<close>: the media type is decoded before the \<open>try\<close> block is entered.\<close>

definition fetchBlob ::
  "'w registry \<Rightarrow> string \<Rightarrow> string \<Rightarrow> string \<Rightarrow> 'w client \<Rightarrow> (js_error + json) \<times> 'w client" where
  "fetchBlob reg repository digest mediaType s =
     (case decodeURIComponent mediaType of
        Inl e \<Rightarrow> (Inl e, s)
      | Inr decodeMediaType \<Rightarrow>
          (case (case apiClient_get reg (''/proxy/'' @ repository @ ''/blobs/'' @ digest)
                         [(''Accept'', decodeMediaType)] default_validateStatus s of
                   (Inl e, s1) \<Rightarrow> (Inl e, s1)
                 | (Inr response, s1) \<Rightarrow> (Inr (ar_data response), s1)) of
             (Inr v, s1) \<Rightarrow> (Inr v, s1)
           | (Inl e, s1) \<Rightarrow>
               (Inr (JObj []), observe (ErrorFetchBlob repository digest decodeMediaType) s1)))"

subsection \<open>Deleting tags\<close>

definition delete_url :: "string \<Rightarrow> string \<Rightarrow> string" where
  "delete_url repository digest = ''/proxy/'' @ repository @ ''/manifests/'' @ digest"

text \<open>
  \<open>deleteTag\<close>: the inner computation is the \<open>try\<close> block; \<open>!manifests ||
  !manifests.digest\<close> holds for \<open>null\<close>, for a missing digest and for an empty one.
\<close>

definition deleteTag ::
  "'w registry \<Rightarrow> string \<Rightarrow> string \<Rightarrow> 'w client \<Rightarrow> (js_error + unit) \<times> 'w client" where
  "deleteTag reg repository tag s =
     (case (case fetchManifests reg repository tag None s of
              (Inl e, s1) \<Rightarrow> (Inl e, s1)
            | (Inr manifests, s1) \<Rightarrow>
                (case manifests of
                   None \<Rightarrow> (Inl PlainError, s1)
                 | Some m \<Rightarrow>
                     (if \<not> truthy (mr_digest m) then (Inl PlainError, s1)
                      else
                        (case apiClient_delete reg
                                (delete_url repository (the (mr_digest m))) s1 of
                           (Inl e, s2) \<Rightarrow> (Inl e, s2)
                         | (Inr response, s2) \<Rightarrow>
                             (Inr (), observe (LogTagDeleted tag repository) s2))))) of
        (Inr u, s1) \<Rightarrow> (Inr (), s1)
      | (Inl e, s1) \<Rightarrow> (Inr (), observe (ErrorTagDeleteFailed tag repository) s1))"

text \<open>\<open>deleteTags\<close>: \<open>for (const tag of tags) await deleteTag(repository, tag)\<close>.\<close>

fun deleteTags ::
  "'w registry \<Rightarrow> string \<Rightarrow> string list \<Rightarrow> 'w client \<Rightarrow> (js_error + unit) \<times> 'w client" where
  "deleteTags reg repository [] s = (Inr (), s)"
| "deleteTags reg repository (tag # tags) s =
     (case deleteTag reg repository tag s of
        (Inl e, s1) \<Rightarrow> (Inl e, s1)
      | (Inr u, s1) \<Rightarrow> deleteTags reg repository tags s1)"

subsection \<open>Reading a client trace\<close>

text \<open>The requests of a trace, in order, and the value of the Accept header of a request.\<close>

fun requests :: "client_event list \<Rightarrow> axios_request list" where
  "requests [] = []"
| "requests (Sent rq # es) = rq # requests es"
| "requests (e # es) = requests es"

definition accept_of :: "axios_request \<Rightarrow> string option" where
  "accept_of rq = headers_get ''Accept'' (ax_headers rq)"

text \<open>What a run has appended to the trace it started from.\<close>

definition new_events :: "'w client \<Rightarrow> 'w client \<Rightarrow> client_event list" where
  "new_events s s' = drop (length (events s)) (events s')"

text \<open>An outcome of the adapter that is a response with status 200.\<close>

definition is_200 :: "axios_outcome \<Rightarrow> bool" where
  "is_200 out = (case out of NetworkError \<Rightarrow> False | Answered r \<Rightarrow> ar_status r = 200)"

text \<open>An outcome of the adapter that is a response with status 404.\<close>

definition is_404 :: "axios_outcome \<Rightarrow> bool" where
  "is_404 out = (case out of NetworkError \<Rightarrow> False | Answered r \<Rightarrow> ar_status r = 404)"

text \<open>A failed request: no response, or a response whose status is not 2xx.\<close>

definition request_failed :: "axios_outcome \<Rightarrow> bool" where
  "request_failed out =
     (case out of NetworkError \<Rightarrow> True | Answered r \<Rightarrow> \<not> default_validateStatus (ar_status r))"

text \<open>
  The steps of a deletion run that matter to its caller: a manifest lookup, a delete
  call, and the final console line of a tag (\<open>True\<close> for "Successfully deleted").
\<close>

datatype action = Lookup string | Delete string | Outcome string bool

fun actions :: "client_event list \<Rightarrow> action list" where
  "actions [] = []"
| "actions (Sent rq # es) =
     (if ax_method rq = ''delete'' then Delete (ax_url rq) else Lookup (ax_url rq)) # actions es"
| "actions (LogTagDeleted tag repository # es) = Outcome tag True # actions es"
| "actions (ErrorTagDeleteFailed tag repository # es) = Outcome tag False # actions es"
| "actions (e # es) = actions es"

text \<open>
  The steps one tag may leave: one or two lookups of the tag's manifest, then either a
  failure line alone, or one delete call under the repository followed by one line.
\<close>

fun after_lookups :: "string \<Rightarrow> action list \<Rightarrow> action list option" where
  "after_lookups url (Lookup u1 # Lookup u2 # r) =
     (if u1 = url \<and> u2 = url then Some r else None)"
| "after_lookups url (Lookup u1 # r) = (if u1 = url then Some r else None)"
| "after_lookups url r = None"

definition tag_steps_ok :: "string \<Rightarrow> string \<Rightarrow> action list \<Rightarrow> bool" where
  "tag_steps_ok repository tag seg =
     (case after_lookups (manifest_url repository tag) seg of
        None \<Rightarrow> False
      | Some [Outcome t ok] \<Rightarrow> t = tag \<and> \<not> ok
      | Some [Delete u, Outcome t ok] \<Rightarrow>
          t = tag \<and> take (length (delete_url repository [])) u = delete_url repository []
      | Some r \<Rightarrow> False)"

subsection \<open>Registry doubles for the client\<close>

text \<open>A service that is never reached.\<close>

definition unreachable_registry :: "unit registry" where
  "unreachable_registry w rq = (NetworkError, w)"

text \<open>
  A service that answers 200 to every request, with a single manifest when asked for
  the Docker manifest type and with an index otherwise.
\<close>

definition both_kinds_registry :: "unit registry" where
  "both_kinds_registry w rq =
     (if accept_of rq = Some ''application/vnd.docker.distribution.manifest.v2+json'' then
        Answered \<lparr>ar_status = 200, ar_headers = [(''docker-content-digest'', ''sha256:single'')],
                  ar_data = JObj [(''schemaVersion'', JNum 2), (''layers'', JArr [])]\<rparr>
      else
        Answered \<lparr>ar_status = 200, ar_headers = [(''docker-content-digest'', ''sha256:index'')],
                  ar_data = JObj [(''schemaVersion'', JNum 2), (''manifests'', JArr [])]\<rparr>,
      w)"

text \<open>
  A registry that resolves every tag to one digest under the Docker manifest type and
  refuses every other request, a delete included, with status 405.
\<close>

definition readonly_registry :: "unit registry" where
  "readonly_registry w rq =
     (if ax_method rq = ''get''
         \<and> accept_of rq = Some ''application/vnd.docker.distribution.manifest.v2+json''
      then Answered \<lparr>ar_status = 200, ar_headers = [(''docker-content-digest'', ''sha256:aa'')],
                     ar_data = JObj [(''schemaVersion'', JNum 2)]\<rparr>
      else Answered \<lparr>ar_status = 405, ar_headers = [], ar_data = JObj []\<rparr>,
      w)"

text \<open>
  A small registry for the repository \<open>app\<close>: its state maps tags to digests; a tag
  resolves under the Docker manifest type only; deleting a digest removes its tags.
\<close>

definition fake_registry :: "(string \<times> string) list registry" where
  "fake_registry tags rq =
     (if ax_method rq = ''get''
         \<and> take (length ''proxy/app/manifests/'') (ax_url rq) = ''proxy/app/manifests/''
         \<and> accept_of rq = Some ''application/vnd.docker.distribution.manifest.v2+json''
      then
        (case map_of tags (drop (length ''proxy/app/manifests/'') (ax_url rq)) of
           Some d \<Rightarrow>
             (Answered \<lparr>ar_status = 200, ar_headers = [(''docker-content-digest'', d)],
                        ar_data = JObj [(''schemaVersion'', JNum 2)]\<rparr>, tags)
         | None \<Rightarrow> (Answered \<lparr>ar_status = 404, ar_headers = [], ar_data = JObj []\<rparr>, tags))
      else if ax_method rq = ''delete''
         \<and> take (length ''/proxy/app/manifests/'') (ax_url rq) = ''/proxy/app/manifests/''
         \<and> drop (length ''/proxy/app/manifests/'') (ax_url rq) \<in> set (map snd tags)
      then
        (Answered \<lparr>ar_status = 202, ar_headers = [], ar_data = JStr []\<rparr>,
         filter (\<lambda>(t, d). d \<noteq> drop (length ''/proxy/app/manifests/'') (ax_url rq)) tags)
      else (Answered \<lparr>ar_status = 404, ar_headers = [], ar_data = JObj []\<rparr>, tags))"

section \<open>Properties of the gateway\<close>

lemma headers_values_delete_same:
  "same_name m n \<Longrightarrow> headers_values m (headers_delete n hs) = []"
  by (induction hs) (auto simp: same_name_def)

lemma headers_values_delete_other:
  "\<not> same_name m n \<Longrightarrow> headers_values m (headers_delete n hs) = headers_values m hs"
  by (induction hs) (auto simp: same_name_def)

lemma headers_delete_filter:
  "headers_delete n hs = filter (\<lambda>(k, v). \<not> same_name k n) hs"
  by (induction hs) auto

lemma headers_delete_absent:
  "\<not> headers_has n hs \<Longrightarrow> headers_delete n hs = hs"
  by (induction hs) (auto simp: headers_has_def)

lemma sanitizeHeaders_filter:
  "sanitizeHeaders hs =
     filter (\<lambda>(k, v). \<not> same_name k ''Host'' \<and> \<not> same_name k ''Authorization'') hs"
  by (auto simp: sanitizeHeaders_def headers_delete_filter intro!: filter_cong)

subsection \<open>Header Sanitizer\<close>

text \<open>
  C7. For every header set, the sanitized set holds no value under \<open>Host\<close> or
  \<open>Authorization\<close> in any spelling of their case; under every other name it holds
  the values of the input, unchanged and in order; its entries are exactly the input's
  entries under other names; and an input without the two headers is returned as it is.
  \<open>sanitizeHeaders\<close> is a function of the header set alone.
\<close>

theorem sanitizeHeaders_strips_host_and_authorization:
  "(\<forall>n. same_name n ''Host'' \<or> same_name n ''Authorization''
        \<longrightarrow> headers_values n (sanitizeHeaders hs) = [])
   \<and> (\<forall>n. \<not> same_name n ''Host'' \<and> \<not> same_name n ''Authorization''
        \<longrightarrow> headers_values n (sanitizeHeaders hs) = headers_values n hs)
   \<and> (\<forall>k v. (k, v) \<in> set (sanitizeHeaders hs)
        \<longleftrightarrow> (k, v) \<in> set hs \<and> \<not> same_name k ''Host'' \<and> \<not> same_name k ''Authorization'')
   \<and> (\<not> headers_has ''Host'' hs \<and> \<not> headers_has ''Authorization'' hs
        \<longrightarrow> sanitizeHeaders hs = hs)"
proof (intro conjI allI impI)
  fix n assume "same_name n ''Host'' \<or> same_name n ''Authorization''"
  then show "headers_values n (sanitizeHeaders hs) = []"
  proof
    assume h: "same_name n ''Host''"
    show ?thesis
    proof (cases "same_name n ''Authorization''")
      case True
      then show ?thesis by (simp add: sanitizeHeaders_def headers_values_delete_same)
    next
      case False
      then show ?thesis
        using h by (simp add: sanitizeHeaders_def headers_values_delete_other
            headers_values_delete_same)
    qed
  next
    assume "same_name n ''Authorization''"
    then show ?thesis by (simp add: sanitizeHeaders_def headers_values_delete_same)
  qed
next
  fix n assume "\<not> same_name n ''Host'' \<and> \<not> same_name n ''Authorization''"
  then show "headers_values n (sanitizeHeaders hs) = headers_values n hs"
    by (simp add: sanitizeHeaders_def headers_values_delete_other)
next
  fix k v
  show "(k, v) \<in> set (sanitizeHeaders hs)
        \<longleftrightarrow> (k, v) \<in> set hs \<and> \<not> same_name k ''Host'' \<and> \<not> same_name k ''Authorization''"
    by (auto simp: sanitizeHeaders_filter)
next
  assume "\<not> headers_has ''Host'' hs \<and> \<not> headers_has ''Authorization'' hs"
  then show "sanitizeHeaders hs = hs"
    by (simp add: sanitizeHeaders_def headers_delete_absent)
qed

theorem sanitizeHeaders_strips_host_and_authorization_witness:
  "(same_name ''HOST'' ''Host'' \<or> same_name ''HOST'' ''Authorization'')
   \<and> headers_values ''HOST''
        (sanitizeHeaders [(''host'', ''registry.local''), (''Accept'', ''application/json''),
                          (''AUTHORIZATION'', ''Bearer t'')]) = []
   \<and> (\<not> same_name ''accept'' ''Host'' \<and> \<not> same_name ''accept'' ''Authorization'')
   \<and> headers_values ''accept''
        (sanitizeHeaders [(''host'', ''registry.local''), (''Accept'', ''application/json''),
                          (''AUTHORIZATION'', ''Bearer t'')]) = [''application/json'']
   \<and> (\<not> headers_has ''Host'' [(''Accept'', ''application/json'')]
        \<and> \<not> headers_has ''Authorization'' [(''Accept'', ''application/json'')])
   \<and> sanitizeHeaders [(''Accept'', ''application/json'')] = [(''Accept'', ''application/json'')]"
proof -
  let ?hs = "[(''host'', ''registry.local''), (''Accept'', ''application/json''),
              (''AUTHORIZATION'', ''Bearer t'')]"
  let ?ks = "[(''Accept'', ''application/json'')]"
  have a: "same_name ''HOST'' ''Host'' \<or> same_name ''HOST'' ''Authorization''"
    by code_simp
  have b: "\<not> same_name ''accept'' ''Host'' \<and> \<not> same_name ''accept'' ''Authorization''"
    by code_simp
  have c: "\<not> headers_has ''Host'' ?ks \<and> \<not> headers_has ''Authorization'' ?ks"
    by code_simp
  have d: "headers_values ''accept'' ?hs = [''application/json'']"
    by code_simp
  from a sanitizeHeaders_strips_host_and_authorization [of ?hs]
  have 1: "headers_values ''HOST'' (sanitizeHeaders ?hs) = []" by blast
  from b sanitizeHeaders_strips_host_and_authorization [of ?hs]
  have "headers_values ''accept'' (sanitizeHeaders ?hs) = headers_values ''accept'' ?hs"
    by blast
  with d have 2: "headers_values ''accept'' (sanitizeHeaders ?hs) = [''application/json'']"
    by simp
  from c sanitizeHeaders_strips_host_and_authorization [of ?ks]
  have 3: "sanitizeHeaders ?ks = ?ks" by blast
  from a b c 1 2 3 show ?thesis by blast
qed

subsection \<open>Path Translator\<close>

lemma strip_proxy_prefix_app: "strip_proxy_prefix (''/api/proxy'' @ rest) = rest"
  by (simp add: strip_proxy_prefix_def)

text \<open>
  C6. For every inbound path that starts with the local prefix \<open>/api/proxy\<close>, the
  translated URL is the registry base URL, then \<open>/v2\<close>, then the rest of the path; an
  empty rest gives \<open><registry-base>/v2/\<close>. A path without the prefix has nothing removed.
  The translation reads the path only: it is a function of the base URL and the request,
  with no call to the upstream, and the body of the request does not enter it.
\<close>

theorem buildRegistryUrl_translates_path:
  "(\<forall>rest. pathname req = ''/api/proxy'' @ rest \<longrightarrow>
      fst (buildRegistryUrl REGISTRY_URL req) =
        REGISTRY_URL @ ''/v2'' @ (if rest = [] then ''/'' else rest))
   \<and> (pathname req = ''/api/proxy'' \<longrightarrow>
        fst (buildRegistryUrl REGISTRY_URL req) = REGISTRY_URL @ ''/v2/'')
   \<and> ((\<forall>rest. pathname req \<noteq> ''/api/proxy'' @ rest) \<and> pathname req \<noteq> [] \<longrightarrow>
        fst (buildRegistryUrl REGISTRY_URL req) = REGISTRY_URL @ ''/v2'' @ pathname req)
   \<and> buildRegistryUrl REGISTRY_URL (req\<lparr>req_text := t\<rparr>) = buildRegistryUrl REGISTRY_URL req"
proof (intro conjI allI impI)
  fix rest assume "pathname req = ''/api/proxy'' @ rest"
  then show "fst (buildRegistryUrl REGISTRY_URL req) =
        REGISTRY_URL @ ''/v2'' @ (if rest = [] then ''/'' else rest)"
    by (simp add: buildRegistryUrl_def strip_proxy_prefix_def)
next
  assume "pathname req = ''/api/proxy''"
  then show "fst (buildRegistryUrl REGISTRY_URL req) = REGISTRY_URL @ ''/v2/''"
    by (simp add: buildRegistryUrl_def strip_proxy_prefix_def)
next
  assume h: "(\<forall>rest. pathname req \<noteq> ''/api/proxy'' @ rest) \<and> pathname req \<noteq> []"
  have "take (length ''/api/proxy'') (pathname req) \<noteq> ''/api/proxy''"
  proof
    assume "take (length ''/api/proxy'') (pathname req) = ''/api/proxy''"
    then have "pathname req = ''/api/proxy'' @ drop (length ''/api/proxy'') (pathname req)"
      by (metis append_take_drop_id)
    with h show False by blast
  qed
  with h show "fst (buildRegistryUrl REGISTRY_URL req) = REGISTRY_URL @ ''/v2'' @ pathname req"
    by (simp add: buildRegistryUrl_def strip_proxy_prefix_def)
next
  show "buildRegistryUrl REGISTRY_URL (req\<lparr>req_text := t\<rparr>) = buildRegistryUrl REGISTRY_URL req"
    by (simp add: buildRegistryUrl_def)
qed

theorem buildRegistryUrl_translates_path_witness:
  "pathname \<lparr>pathname = ''/api/proxy/library/app/tags/list'', req_headers = [],
             req_text = []\<rparr> = ''/api/proxy'' @ ''/library/app/tags/list''
   \<and> fst (buildRegistryUrl ''http://localhost:5000''
            \<lparr>pathname = ''/api/proxy/library/app/tags/list'', req_headers = [],
             req_text = []\<rparr>) = ''http://localhost:5000/v2/library/app/tags/list''
   \<and> pathname \<lparr>pathname = ''/api/proxy'', req_headers = [], req_text = []\<rparr> = ''/api/proxy''
   \<and> fst (buildRegistryUrl ''http://localhost:5000''
            \<lparr>pathname = ''/api/proxy'', req_headers = [], req_text = []\<rparr>) =
       ''http://localhost:5000/v2/''
   \<and> ((\<forall>rest. pathname \<lparr>pathname = ''/ping'', req_headers = [], req_text = []\<rparr>
                 \<noteq> ''/api/proxy'' @ rest)
        \<and> pathname \<lparr>pathname = ''/ping'', req_headers = [], req_text = []\<rparr> \<noteq> [])
   \<and> fst (buildRegistryUrl ''http://localhost:5000''
            \<lparr>pathname = ''/ping'', req_headers = [], req_text = []\<rparr>) =
       ''http://localhost:5000/v2/ping''"
proof -
  let ?r1 = "\<lparr>pathname = ''/api/proxy/library/app/tags/list'', req_headers = [],
              req_text = []\<rparr>"
  let ?r2 = "\<lparr>pathname = ''/api/proxy'', req_headers = [], req_text = []\<rparr>"
  let ?r3 = "\<lparr>pathname = ''/ping'', req_headers = [], req_text = []\<rparr>"
  have a: "pathname ?r1 = ''/api/proxy'' @ ''/library/app/tags/list''" by simp
  have b: "pathname ?r2 = ''/api/proxy''" by simp
  have c: "(\<forall>rest. pathname ?r3 \<noteq> ''/api/proxy'' @ rest) \<and> pathname ?r3 \<noteq> []" by simp
  from a buildRegistryUrl_translates_path [of ?r1 "''http://localhost:5000''"]
  have "fst (buildRegistryUrl ''http://localhost:5000'' ?r1) =
          ''http://localhost:5000'' @ ''/v2'' @
            (if ''/library/app/tags/list'' = [] then ''/'' else ''/library/app/tags/list'')"
    by blast
  then have 1: "fst (buildRegistryUrl ''http://localhost:5000'' ?r1) =
          ''http://localhost:5000/v2/library/app/tags/list''"
    by simp
  from b buildRegistryUrl_translates_path [of ?r2 "''http://localhost:5000''"]
  have "fst (buildRegistryUrl ''http://localhost:5000'' ?r2) = ''http://localhost:5000'' @ ''/v2/''"
    by blast
  then have 2: "fst (buildRegistryUrl ''http://localhost:5000'' ?r2) = ''http://localhost:5000/v2/''"
    by simp
  from c buildRegistryUrl_translates_path [of ?r3 "''http://localhost:5000''"]
  have "fst (buildRegistryUrl ''http://localhost:5000'' ?r3) =
          ''http://localhost:5000'' @ ''/v2'' @ pathname ?r3"
    by blast
  then have 3: "fst (buildRegistryUrl ''http://localhost:5000'' ?r3) = ''http://localhost:5000/v2/ping''"
    by simp
  from a b c 1 2 3 show ?thesis by blast
qed

subsection \<open>Traces of the fetchers\<close>

lemma trace_emit [simp]: "trace (emit e s) = trace s @ [e]"
  by (simp add: emit_def)

lemma upstream_state_emit [simp]: "upstream_state (emit e s) = upstream_state s"
  by (simp add: emit_def)

lemma fetches_append [simp]: "fetches (xs @ ys) = fetches xs @ fetches ys"
  by (induction xs rule: fetches.induct) simp_all

lemma waits_append [simp]: "waits (xs @ ys) = waits xs @ waits ys"
  by (induction xs rule: waits.induct) simp_all

lemma do_fetch_eq:
  "do_fetch up rq s =
     (fst (up (upstream_state s) rq),
      emit (Fetch rq) (s\<lparr>upstream_state := snd (up (upstream_state s) rq)\<rparr>))"
  by (simp add: do_fetch_def split: prod.splits)

lemma handleFetchResponse_trace:
  "fetches (trace (snd (handleFetchResponse r s))) = fetches (trace s)
   \<and> waits (trace (snd (handleFetchResponse r s))) = waits (trace s)
   \<and> upstream_state (snd (handleFetchResponse r s)) = upstream_state s"
  by (simp add: handleFetchResponse_def)

lemma handleFetchResponse_result:
  "fst (handleFetchResponse r s) =
     (if response_ok r then
        Inr \<lparr>nr_status = rs_status r, nr_headers = rs_headers r,
             nr_body = PassThrough (rs_body r)\<rparr>
      else if json_status_error (rs_status r) = None then
        Inr (json_error (if rs_statusText r \<noteq> [] then rs_statusText r
                         else ''Failed to fetch from registry'') (rs_status r))
      else Inl (the (json_status_error (rs_status r))))"
  by (auto simp: handleFetchResponse_def NextResponse_json_def split: option.splits)


lemma simpleFetch_eq:
  "simpleFetch up method url hdrs body s =
     (let rq = \<lparr>fr_method = method, fr_url = url, fr_headers = hdrs, fr_body = body\<rparr>;
          s1 = emit (Fetch rq) (s\<lparr>upstream_state := snd (up (upstream_state s) rq)\<rparr>)
      in case fst (up (upstream_state s) rq) of
           Rejected \<Rightarrow> handleErrorResponse (''['' @ method @ ''] Fetch error'') s1
         | Resolved response \<Rightarrow>
             (case fst (handleFetchResponse response
                          (emit (LogResponse (rs_status response) method) s1)) of
                Inr result \<Rightarrow>
                  (result, snd (handleFetchResponse response
                                  (emit (LogResponse (rs_status response) method) s1)))
              | Inl e \<Rightarrow>
                  handleErrorResponse (''['' @ method @ ''] Fetch error'')
                    (snd (handleFetchResponse response
                            (emit (LogResponse (rs_status response) method) s1)))))"
  by (simp add: simpleFetch_def do_fetch_eq Let_def
      split: fetch_outcome.splits prod.splits sum.splits)

lemma simpleFetch_fetches:
  "fetches (trace (snd (simpleFetch up method url hdrs body s))) =
     fetches (trace s) @
       [\<lparr>fr_method = method, fr_url = url, fr_headers = hdrs, fr_body = body\<rparr>]"
  by (simp add: simpleFetch_eq Let_def handleErrorResponse_def handleFetchResponse_trace
      split: fetch_outcome.splits sum.splits)

lemma simpleFetch_waits:
  "waits (trace (snd (simpleFetch up method url hdrs body s))) = waits (trace s)"
  by (simp add: simpleFetch_eq Let_def handleErrorResponse_def handleFetchResponse_trace
      split: fetch_outcome.splits sum.splits)

lemma simpleFetch_rejected:
  "fst (up (upstream_state s)
          \<lparr>fr_method = method, fr_url = url, fr_headers = hdrs, fr_body = body\<rparr>) = Rejected
   \<Longrightarrow> fst (simpleFetch up method url hdrs body s) = json_error ''Internal server error'' 500"
  by (simp add: simpleFetch_eq Let_def handleErrorResponse_def)

lemma simpleFetch_ok:
  "fst (up (upstream_state s)
          \<lparr>fr_method = method, fr_url = url, fr_headers = hdrs, fr_body = body\<rparr>) = Resolved r
   \<Longrightarrow> response_ok r
   \<Longrightarrow> fst (simpleFetch up method url hdrs body s) =
         \<lparr>nr_status = rs_status r, nr_headers = rs_headers r,
          nr_body = PassThrough (rs_body r)\<rparr>"
  by (simp add: simpleFetch_eq Let_def handleFetchResponse_result)

lemma simpleFetch_upstream_error:
  "fst (up (upstream_state s)
          \<lparr>fr_method = method, fr_url = url, fr_headers = hdrs, fr_body = body\<rparr>) = Resolved r
   \<Longrightarrow> \<not> response_ok r \<Longrightarrow> json_status_error (rs_status r) = None
   \<Longrightarrow> fst (simpleFetch up method url hdrs body s) =
         json_error (if rs_statusText r \<noteq> [] then rs_statusText r
                     else ''Failed to fetch from registry'') (rs_status r)"
  by (simp add: simpleFetch_eq Let_def handleFetchResponse_result)

lemma simpleFetch_resolved:
  "fst (up (upstream_state s)
          \<lparr>fr_method = method, fr_url = url, fr_headers = hdrs, fr_body = body\<rparr>) = Resolved r
   \<Longrightarrow> forwardable r
   \<Longrightarrow> \<not> (rs_status r = 500 \<and> rs_statusText r = ''Internal server error'')
   \<Longrightarrow> fst (simpleFetch up method url hdrs body s) \<noteq> json_error ''Internal server error'' 500"
  by (auto simp: simpleFetch_eq Let_def handleFetchResponse_result forwardable_def
      json_error_def)

text \<open>
  An upstream answer whose status \<open>NextResponse.json\<close> refuses (304, or a status outside
  200 to 599) ends in the \<open>catch\<close> block of \<open>simpleFetch\<close>, like a transport failure.
\<close>

lemma simpleFetch_refused_status:
  "fst (up (upstream_state s)
          \<lparr>fr_method = method, fr_url = url, fr_headers = hdrs, fr_body = body\<rparr>) = Resolved r
   \<Longrightarrow> \<not> forwardable r
   \<Longrightarrow> fst (simpleFetch up method url hdrs body s) = json_error ''Internal server error'' 500"
  by (auto simp: simpleFetch_eq Let_def handleFetchResponse_result forwardable_def
      handleErrorResponse_def)

subsection \<open>Request bodies\<close>

text \<open>
  C4. The claim: every \<open>POST\<close> and \<open>PUT\<close> forwards method, translated URL, sanitized
  headers and the inbound body. What the handlers do, for every request: the one upstream
  call of \<open>PUT\<close> carries the body text of the inbound request, and the one upstream call
  of \<open>POST\<close> carries no body at all, whatever the inbound body is.
\<close>

theorem POST_omits_request_body:
  "fetches (trace (snd (POST up REGISTRY_URL req s))) =
     fetches (trace s) @
       [\<lparr>fr_method = ''POST'', fr_url = fst (buildRegistryUrl REGISTRY_URL req),
         fr_headers = sanitizeHeaders (req_headers req), fr_body = None\<rparr>]
   \<and> fetches (trace (snd (PUT up REGISTRY_URL req s))) =
     fetches (trace s) @
       [\<lparr>fr_method = ''PUT'', fr_url = fst (buildRegistryUrl REGISTRY_URL req),
         fr_headers = sanitizeHeaders (req_headers req), fr_body = Some (req_text req)\<rparr>]"
  by (simp add: POST_def PUT_def simpleFetch_fetches buildRegistryUrl_def Let_def)

subsection \<open>The retry loop, one iteration at a time\<close>

lemma loop_rejected:
  assumes "fst (up (upstream_state s)
      \<lparr>fr_method = method, fr_url = url, fr_headers = hdrs, fr_body = body\<rparr>) = Rejected"
    and "retryCount < maxRetries"
  shows "performFetch_loop up method url hdrs body retryCount s =
     performFetch_loop up method url hdrs body (Suc retryCount)
       (emit (WarnRetrying method (Suc retryCount) maxRetries)
         (emit (Fetch \<lparr>fr_method = method, fr_url = url, fr_headers = hdrs, fr_body = body\<rparr>)
           (emit (LogRequestHeaders 1 hdrs) s
              \<lparr>upstream_state := snd (up (upstream_state s)
                \<lparr>fr_method = method, fr_url = url, fr_headers = hdrs, fr_body = body\<rparr>)\<rparr>)))"
  using assms
  by (subst performFetch_loop.simps) (simp add: do_fetch_eq)

lemma loop_rejected_last:
  assumes "fst (up (upstream_state s)
      \<lparr>fr_method = method, fr_url = url, fr_headers = hdrs, fr_body = body\<rparr>) = Rejected"
    and "retryCount = maxRetries"
  shows "performFetch_loop up method url hdrs body retryCount s =
     handleErrorResponse (''['' @ method @ ''] Fetch error after max retries'')
         (emit (Fetch \<lparr>fr_method = method, fr_url = url, fr_headers = hdrs, fr_body = body\<rparr>)
           (emit (LogRequestHeaders 1 hdrs) s
              \<lparr>upstream_state := snd (up (upstream_state s)
                \<lparr>fr_method = method, fr_url = url, fr_headers = hdrs, fr_body = body\<rparr>)\<rparr>))"
  using assms
  by (subst performFetch_loop.simps) (simp add: do_fetch_eq)





lemma step_rejected:
  assumes "fst (up (upstream_state s)
      \<lparr>fr_method = method, fr_url = url, fr_headers = hdrs, fr_body = body\<rparr>) = Rejected"
    and "retryCount < maxRetries"
  shows "\<exists>s'. performFetch_loop up method url hdrs body retryCount s =
            performFetch_loop up method url hdrs body (Suc retryCount) s'
          \<and> fetches (trace s') = fetches (trace s) @
               [\<lparr>fr_method = method, fr_url = url, fr_headers = hdrs, fr_body = body\<rparr>]
          \<and> waits (trace s') = waits (trace s)
          \<and> upstream_state s' = snd (up (upstream_state s)
               \<lparr>fr_method = method, fr_url = url, fr_headers = hdrs, fr_body = body\<rparr>)"
  by (rule exI, rule conjI, rule loop_rejected [where up = up and s = s, OF assms]) simp


lemma last_rejected:
  assumes "fst (up (upstream_state s)
      \<lparr>fr_method = method, fr_url = url, fr_headers = hdrs, fr_body = body\<rparr>) = Rejected"
    and "retryCount = maxRetries"
  shows "fst (performFetch_loop up method url hdrs body retryCount s) =
           json_error ''Internal server error'' 500
       \<and> fetches (trace (snd (performFetch_loop up method url hdrs body retryCount s))) =
           fetches (trace s) @
             [\<lparr>fr_method = method, fr_url = url, fr_headers = hdrs, fr_body = body\<rparr>]
       \<and> waits (trace (snd (performFetch_loop up method url hdrs body retryCount s))) =
           waits (trace s)"
  by (simp add: loop_rejected_last [where up = up and s = s, OF assms] handleErrorResponse_def)







subsection \<open>Transport failures\<close>

lemma maxRetries_pos: "0 < maxRetries" "Suc 0 < maxRetries" "Suc (Suc 0) < maxRetries"
  "Suc (Suc (Suc 0)) = maxRetries"
  by (simp_all add: maxRetries_def)

lemma handler_cases:
  "H \<in> {GET, POST, PUT, DELETE} \<Longrightarrow>
     \<exists>method body. \<forall>up REGISTRY_URL req s. H up REGISTRY_URL req s =
        simpleFetch up method (fst (buildRegistryUrl REGISTRY_URL req))
          (sanitizeHeaders (req_headers req)) (body req)
          (emit (LogFetch (fst (buildRegistryUrl REGISTRY_URL req)) method)
             (emit (LogRequest method (pathname req)) s))"
proof -
  assume "H \<in> {GET, POST, PUT, DELETE}"
  then consider "H = GET" | "H = POST" | "H = PUT" | "H = DELETE" by blast
  then show ?thesis
  proof cases
    case 1
    then show ?thesis
      by (intro exI [of _ "''GET''"] exI [of _ "\<lambda>req. None"])
         (simp add: GET_def buildRegistryUrl_def Let_def)
  next
    case 2
    then show ?thesis
      by (intro exI [of _ "''POST''"] exI [of _ "\<lambda>req. None"])
         (simp add: POST_def buildRegistryUrl_def Let_def)
  next
    case 3
    then show ?thesis
      by (intro exI [of _ "''PUT''"] exI [of _ "\<lambda>req. Some (req_text req)"])
         (simp add: PUT_def buildRegistryUrl_def Let_def)
  next
    case 4
    then show ?thesis
      by (intro exI [of _ "''DELETE''"] exI [of _ "\<lambda>req. None"])
         (simp add: DELETE_def buildRegistryUrl_def Let_def)
  qed
qed

lemma performFetch_unreachable:
  assumes "\<forall>w q. fst (up w q) = Rejected"
  shows "fst (performFetch up method url hdrs body s) = json_error ''Internal server error'' 500
       \<and> fetches (trace (snd (performFetch up method url hdrs body s))) =
           fetches (trace s) @
             replicate 4 \<lparr>fr_method = method, fr_url = url, fr_headers = hdrs, fr_body = body\<rparr>
       \<and> waits (trace (snd (performFetch up method url hdrs body s))) = waits (trace s)"
proof -
  let ?rq = "\<lparr>fr_method = method, fr_url = url, fr_headers = hdrs, fr_body = body\<rparr>"
  have rej: "\<And>t. fst (up (upstream_state t) ?rq) = Rejected" using assms by simp
  from step_rejected [where up = up and s = s, OF rej maxRetries_pos(1)] obtain s1 where
    s1: "performFetch_loop up method url hdrs body 0 s =
           performFetch_loop up method url hdrs body (Suc 0) s1"
      "fetches (trace s1) = fetches (trace s) @ [?rq]" "waits (trace s1) = waits (trace s)"
    by blast
  from step_rejected [where up = up and s = s1, OF rej maxRetries_pos(2)] obtain s2 where
    s2: "performFetch_loop up method url hdrs body (Suc 0) s1 =
           performFetch_loop up method url hdrs body (Suc (Suc 0)) s2"
      "fetches (trace s2) = fetches (trace s1) @ [?rq]" "waits (trace s2) = waits (trace s1)"
    by blast
  from step_rejected [where up = up and s = s2, OF rej maxRetries_pos(3)] obtain s3 where
    s3: "performFetch_loop up method url hdrs body (Suc (Suc 0)) s2 =
           performFetch_loop up method url hdrs body (Suc (Suc (Suc 0))) s3"
      "fetches (trace s3) = fetches (trace s2) @ [?rq]" "waits (trace s3) = waits (trace s2)"
    by blast
  from last_rejected [where up = up and s = s3, OF rej maxRetries_pos(4)]
  show ?thesis
    unfolding performFetch_def s1(1) s2(1) s3(1)
    by (simp add: s1(2,3) s2(2,3) s3(2,3) numeral_eq_Suc)
qed

lemma json_status_error_none:
  "300 \<le> st \<Longrightarrow> st \<le> 599 \<Longrightarrow> st \<noteq> 304 \<Longrightarrow> json_status_error st = None"
  by (simp add: json_status_error_def)

text \<open>
  C3, as the code has it. Each of the four handlers makes exactly one upstream call, to
  the translated URL, and never waits; when that call fails at the transport level the
  handler answers with the generic failure (status 500, error "Internal server error").
  An upstream answer with an ok status is passed on as it is, and an upstream error
  with a status from 300 to 599 other than 304 is answered with that status and its
  status text; each of these differs from the generic failure unless it is itself a 500
  with the status text "Internal server error". The bound of three retries without delay
  is that of \<open>performFetch\<close>, which no handler calls: against an upstream that always
  fails at the transport level it makes 1 + 3 calls, waits for none of them, and returns
  the same generic failure.
\<close>

theorem handlers_fetch_once_without_retry:
  "(H \<in> {GET, POST, PUT, DELETE} \<longrightarrow>
      (\<exists>rq. fetches (trace (snd (H up REGISTRY_URL req s))) = fetches (trace s) @ [rq]
         \<and> fr_url rq = fst (buildRegistryUrl REGISTRY_URL req)
         \<and> waits (trace (snd (H up REGISTRY_URL req s))) = waits (trace s)
         \<and> (fst (up (upstream_state s) rq) = Rejected \<longrightarrow>
              fst (H up REGISTRY_URL req s) = json_error ''Internal server error'' 500)
         \<and> (\<forall>r. fst (up (upstream_state s) rq) = Resolved r \<and> response_ok r \<longrightarrow>
              fst (H up REGISTRY_URL req s) =
                \<lparr>nr_status = rs_status r, nr_headers = rs_headers r,
                 nr_body = PassThrough (rs_body r)\<rparr>)
         \<and> (\<forall>r. fst (up (upstream_state s) rq) = Resolved r
                 \<and> 300 \<le> rs_status r \<and> rs_status r \<le> 599 \<and> rs_status r \<noteq> 304 \<longrightarrow>
              fst (H up REGISTRY_URL req s) =
                json_error (if rs_statusText r \<noteq> [] then rs_statusText r
                            else ''Failed to fetch from registry'') (rs_status r))
         \<and> (\<forall>r. fst (up (upstream_state s) rq) = Resolved r
                 \<and> (response_ok r
                     \<or> 300 \<le> rs_status r \<and> rs_status r \<le> 599 \<and> rs_status r \<noteq> 304)
                 \<and> \<not> (rs_status r = 500 \<and> rs_statusText r = ''Internal server error'') \<longrightarrow>
              fst (H up REGISTRY_URL req s) \<noteq> json_error ''Internal server error'' 500)))
   \<and> ((\<forall>w q. fst (up w q) = Rejected) \<longrightarrow>
        fst (performFetch up method url hdrs body s) = json_error ''Internal server error'' 500
        \<and> fetches (trace (snd (performFetch up method url hdrs body s))) =
            fetches (trace s) @
              replicate (1 + 3)
                \<lparr>fr_method = method, fr_url = url, fr_headers = hdrs, fr_body = body\<rparr>
        \<and> waits (trace (snd (performFetch up method url hdrs body s))) = waits (trace s))"
proof (rule conjI; rule impI)
  assume "H \<in> {GET, POST, PUT, DELETE}"
  from handler_cases [OF this] obtain m b where
    H: "\<And>up REGISTRY_URL req s. H up REGISTRY_URL req s =
        simpleFetch up m (fst (buildRegistryUrl REGISTRY_URL req))
          (sanitizeHeaders (req_headers req)) (b req)
          (emit (LogFetch (fst (buildRegistryUrl REGISTRY_URL req)) m)
             (emit (LogRequest m (pathname req)) s))"
    by blast
  let ?rq = "\<lparr>fr_method = m, fr_url = fst (buildRegistryUrl REGISTRY_URL req),
              fr_headers = sanitizeHeaders (req_headers req), fr_body = b req\<rparr>"
  let ?t = "emit (LogFetch (fst (buildRegistryUrl REGISTRY_URL req)) m)
              (emit (LogRequest m (pathname req)) s)"
  have st: "upstream_state ?t = upstream_state s" by simp
  have 1: "fetches (trace (snd (H up REGISTRY_URL req s))) = fetches (trace s) @ [?rq]"
    by (simp add: H simpleFetch_fetches)
  have 2: "waits (trace (snd (H up REGISTRY_URL req s))) = waits (trace s)"
    by (simp add: H simpleFetch_waits)
  have 3: "fst (up (upstream_state s) ?rq) = Rejected \<longrightarrow>
              fst (H up REGISTRY_URL req s) = json_error ''Internal server error'' 500"
    by (simp add: H simpleFetch_rejected)
  have 4: "\<forall>r. fst (up (upstream_state s) ?rq) = Resolved r \<and> response_ok r \<longrightarrow>
              fst (H up REGISTRY_URL req s) =
                \<lparr>nr_status = rs_status r, nr_headers = rs_headers r,
                 nr_body = PassThrough (rs_body r)\<rparr>"
  proof (intro allI impI)
    fix r assume "fst (up (upstream_state s) ?rq) = Resolved r \<and> response_ok r"
    then have a: "fst (up (upstream_state ?t) ?rq) = Resolved r" and o: "response_ok r"
      by simp_all
    from simpleFetch_ok [where up = up and s = ?t, OF a o]
    show "fst (H up REGISTRY_URL req s) =
                \<lparr>nr_status = rs_status r, nr_headers = rs_headers r,
                 nr_body = PassThrough (rs_body r)\<rparr>"
      by (simp add: H)
  qed
  have 5: "\<forall>r. fst (up (upstream_state s) ?rq) = Resolved r
                 \<and> 300 \<le> rs_status r \<and> rs_status r \<le> 599 \<and> rs_status r \<noteq> 304 \<longrightarrow>
              fst (H up REGISTRY_URL req s) =
                json_error (if rs_statusText r \<noteq> [] then rs_statusText r
                            else ''Failed to fetch from registry'') (rs_status r)"
  proof (intro allI impI)
    fix r assume h: "fst (up (upstream_state s) ?rq) = Resolved r
                 \<and> 300 \<le> rs_status r \<and> rs_status r \<le> 599 \<and> rs_status r \<noteq> 304"
    then have a: "fst (up (upstream_state ?t) ?rq) = Resolved r"
      and n: "\<not> response_ok r" and j: "json_status_error (rs_status r) = None"
      by (simp_all add: response_ok_def json_status_error_none)
    from simpleFetch_upstream_error [where up = up and s = ?t, OF a n j]
    show "fst (H up REGISTRY_URL req s) =
                json_error (if rs_statusText r \<noteq> [] then rs_statusText r
                            else ''Failed to fetch from registry'') (rs_status r)"
      by (simp add: H)
  qed
  have 6: "\<forall>r. fst (up (upstream_state s) ?rq) = Resolved r
                 \<and> (response_ok r
                     \<or> 300 \<le> rs_status r \<and> rs_status r \<le> 599 \<and> rs_status r \<noteq> 304)
                 \<and> \<not> (rs_status r = 500 \<and> rs_statusText r = ''Internal server error'') \<longrightarrow>
              fst (H up REGISTRY_URL req s) \<noteq> json_error ''Internal server error'' 500"
  proof (intro allI impI)
    fix r assume h: "fst (up (upstream_state s) ?rq) = Resolved r
                 \<and> (response_ok r
                     \<or> 300 \<le> rs_status r \<and> rs_status r \<le> 599 \<and> rs_status r \<noteq> 304)
                 \<and> \<not> (rs_status r = 500 \<and> rs_statusText r = ''Internal server error'')"
    then have a: "fst (up (upstream_state ?t) ?rq) = Resolved r"
      and f: "forwardable r"
      and d: "\<not> (rs_status r = 500 \<and> rs_statusText r = ''Internal server error'')"
      by (auto simp: forwardable_def json_status_error_none)
    from simpleFetch_resolved [where up = up and s = ?t, OF a f d]
    show "fst (H up REGISTRY_URL req s) \<noteq> json_error ''Internal server error'' 500"
      by (simp add: H)
  qed
  have 0: "fr_url ?rq = fst (buildRegistryUrl REGISTRY_URL req)" by simp
  from 0 1 2 3 4 5 6
  show "\<exists>rq. fetches (trace (snd (H up REGISTRY_URL req s))) = fetches (trace s) @ [rq]
         \<and> fr_url rq = fst (buildRegistryUrl REGISTRY_URL req)
         \<and> waits (trace (snd (H up REGISTRY_URL req s))) = waits (trace s)
         \<and> (fst (up (upstream_state s) rq) = Rejected \<longrightarrow>
              fst (H up REGISTRY_URL req s) = json_error ''Internal server error'' 500)
         \<and> (\<forall>r. fst (up (upstream_state s) rq) = Resolved r \<and> response_ok r \<longrightarrow>
              fst (H up REGISTRY_URL req s) =
                \<lparr>nr_status = rs_status r, nr_headers = rs_headers r,
                 nr_body = PassThrough (rs_body r)\<rparr>)
         \<and> (\<forall>r. fst (up (upstream_state s) rq) = Resolved r
                 \<and> 300 \<le> rs_status r \<and> rs_status r \<le> 599 \<and> rs_status r \<noteq> 304 \<longrightarrow>
              fst (H up REGISTRY_URL req s) =
                json_error (if rs_statusText r \<noteq> [] then rs_statusText r
                            else ''Failed to fetch from registry'') (rs_status r))
         \<and> (\<forall>r. fst (up (upstream_state s) rq) = Resolved r
                 \<and> (response_ok r
                     \<or> 300 \<le> rs_status r \<and> rs_status r \<le> 599 \<and> rs_status r \<noteq> 304)
                 \<and> \<not> (rs_status r = 500 \<and> rs_statusText r = ''Internal server error'') \<longrightarrow>
              fst (H up REGISTRY_URL req s) \<noteq> json_error ''Internal server error'' 500)"
    by (intro exI [of _ ?rq]) blast
next
  assume "\<forall>w q. fst (up w q) = Rejected"
  from performFetch_unreachable [OF this, of "method" "url" hdrs body s]
  show "fst (performFetch up method url hdrs body s) = json_error ''Internal server error'' 500
        \<and> fetches (trace (snd (performFetch up method url hdrs body s))) =
            fetches (trace s) @
              replicate (1 + 3)
                \<lparr>fr_method = method, fr_url = url, fr_headers = hdrs, fr_body = body\<rparr>
        \<and> waits (trace (snd (performFetch up method url hdrs body s))) = waits (trace s)"
    by simp
qed

text \<open>
  The claim as written fails: when the upstream fails at the transport level once and
  would answer the second call, \<open>GET\<close> returns the generic failure after a single call.
\<close>

theorem GET_gives_up_after_first_failure_counterexample:
  "fst (GET recovering_upstream ''http://localhost:5000'' catalog_request
          \<lparr>upstream_state = 0, trace = []\<rparr>) = json_error ''Internal server error'' 500
   \<and> length (fetches (trace (snd (GET recovering_upstream ''http://localhost:5000''
          catalog_request \<lparr>upstream_state = 0, trace = []\<rparr>)))) = 1
   \<and> fst (recovering_upstream
            (upstream_state (snd (GET recovering_upstream ''http://localhost:5000''
               catalog_request \<lparr>upstream_state = 0, trace = []\<rparr>)))
            \<lparr>fr_method = ''GET'', fr_url = ''http://localhost:5000/v2/_catalog'',
             fr_headers = [(''accept'', ''application/json'')], fr_body = None\<rparr>)
       = Resolved ok_response"
  by (simp add: GET_def simpleFetch_eq handleErrorResponse_def
      recovering_upstream_def buildRegistryUrl_def Let_def)

theorem handlers_fetch_once_without_retry_witness:
  "(GET :: unit upstream \<Rightarrow> _) \<in> {GET, POST, PUT, DELETE}
   \<and> (GET :: nat upstream \<Rightarrow> _) \<in> {GET, POST, PUT, DELETE}
   \<and> (\<forall>w q. fst (unreachable_upstream w q) = Rejected)
   \<and> fst (GET unreachable_upstream ''http://localhost:5000'' catalog_request
            \<lparr>upstream_state = (), trace = []\<rparr>) = json_error ''Internal server error'' 500
   \<and> length (fetches (trace (snd (GET unreachable_upstream ''http://localhost:5000''
            catalog_request \<lparr>upstream_state = (), trace = []\<rparr>)))) = 1
   \<and> (\<forall>q. fst (recovering_upstream 1 q) = Resolved ok_response) \<and> response_ok ok_response
   \<and> fst (GET recovering_upstream ''http://localhost:5000'' catalog_request
            \<lparr>upstream_state = 1, trace = []\<rparr>) =
       \<lparr>nr_status = 200, nr_headers = [(''content-type'', ''application/json'')],
        nr_body = PassThrough ''{}''\<rparr>
   \<and> (\<forall>q. fst (missing_upstream () q) = Resolved not_found_response)
   \<and> (300 \<le> rs_status not_found_response \<and> rs_status not_found_response \<le> 599
      \<and> rs_status not_found_response \<noteq> 304
      \<and> \<not> (rs_status not_found_response = 500
           \<and> rs_statusText not_found_response = ''Internal server error''))
   \<and> fst (GET missing_upstream ''http://localhost:5000'' catalog_request
            \<lparr>upstream_state = (), trace = []\<rparr>) = json_error ''Not Found'' 404
   \<and> fst (GET missing_upstream ''http://localhost:5000'' catalog_request
            \<lparr>upstream_state = (), trace = []\<rparr>) \<noteq> json_error ''Internal server error'' 500
   \<and> fst (performFetch unreachable_upstream ''GET'' ''http://localhost:5000/v2/_catalog'' []
            None \<lparr>upstream_state = (), trace = []\<rparr>) = json_error ''Internal server error'' 500
   \<and> length (fetches (trace (snd (performFetch unreachable_upstream ''GET''
            ''http://localhost:5000/v2/_catalog'' [] None
            \<lparr>upstream_state = (), trace = []\<rparr>)))) = 4"
proof -
  let ?s = "\<lparr>upstream_state = (), trace = []\<rparr>"
  let ?n = "\<lparr>upstream_state = (1::nat), trace = []\<rparr>"
  let ?G = "GET unreachable_upstream ''http://localhost:5000'' catalog_request ?s"
  let ?R = "GET recovering_upstream ''http://localhost:5000'' catalog_request ?n"
  let ?M = "GET missing_upstream ''http://localhost:5000'' catalog_request ?s"
  let ?P = "performFetch unreachable_upstream ''GET'' ''http://localhost:5000/v2/_catalog'' []
              None ?s"
  have a: "(GET :: unit upstream \<Rightarrow> _) \<in> {GET, POST, PUT, DELETE}" by simp
  have an: "(GET :: nat upstream \<Rightarrow> _) \<in> {GET, POST, PUT, DELETE}" by simp
  have b: "\<forall>w q. fst (unreachable_upstream w q) = Rejected"
    by (simp add: unreachable_upstream_def)
  have c: "\<forall>q. fst (recovering_upstream 1 q) = Resolved ok_response"
    by (simp add: recovering_upstream_def)
  have co: "response_ok ok_response" by (simp add: response_ok_def ok_response_def)
  have d: "\<forall>q. fst (missing_upstream () q) = Resolved not_found_response"
    by (simp add: missing_upstream_def)
  have dn: "300 \<le> rs_status not_found_response \<and> rs_status not_found_response \<le> 599
      \<and> rs_status not_found_response \<noteq> 304
      \<and> \<not> (rs_status not_found_response = 500
           \<and> rs_statusText not_found_response = ''Internal server error'')"
    by (simp add: not_found_response_def)
  note inst = handlers_fetch_once_without_retry [of GET unreachable_upstream
      "''http://localhost:5000''" catalog_request ?s "''GET''"
      "''http://localhost:5000/v2/_catalog''" "[]" None]
  from inst a obtain rq where
    rq: "fetches (trace (snd ?G)) = fetches (trace ?s) @ [rq]"
      "fst (unreachable_upstream (upstream_state ?s) rq) = Rejected \<longrightarrow>
         fst ?G = json_error ''Internal server error'' 500"
    by blast
  from rq(2) b have 1: "fst ?G = json_error ''Internal server error'' 500" by blast
  from rq(1) have 2: "length (fetches (trace (snd ?G))) = 1" by simp
  from inst b have p: "fst ?P = json_error ''Internal server error'' 500
      \<and> fetches (trace (snd ?P)) = fetches (trace ?s) @ replicate (1 + 3)
          \<lparr>fr_method = ''GET'', fr_url = ''http://localhost:5000/v2/_catalog'',
           fr_headers = [], fr_body = None\<rparr>"
    by blast
  then have 3: "length (fetches (trace (snd ?P))) = 4" by simp
  from handlers_fetch_once_without_retry [of GET recovering_upstream
      "''http://localhost:5000''" catalog_request ?n] an
  obtain rq' where
    "\<forall>r. fst (recovering_upstream (upstream_state ?n) rq') = Resolved r \<and> response_ok r \<longrightarrow>
       fst ?R = \<lparr>nr_status = rs_status r, nr_headers = rs_headers r,
                 nr_body = PassThrough (rs_body r)\<rparr>"
    by blast
  with c co have "fst ?R = \<lparr>nr_status = rs_status ok_response,
      nr_headers = rs_headers ok_response, nr_body = PassThrough (rs_body ok_response)\<rparr>"
    by simp
  then have 4: "fst ?R = \<lparr>nr_status = 200,
      nr_headers = [(''content-type'', ''application/json'')], nr_body = PassThrough ''{}''\<rparr>"
    by (simp add: ok_response_def)
  from handlers_fetch_once_without_retry [of GET missing_upstream
      "''http://localhost:5000''" catalog_request ?s] a
  obtain rq'' where
    m: "\<forall>r. fst (missing_upstream (upstream_state ?s) rq'') = Resolved r
          \<and> 300 \<le> rs_status r \<and> rs_status r \<le> 599 \<and> rs_status r \<noteq> 304 \<longrightarrow>
          fst ?M = json_error (if rs_statusText r \<noteq> [] then rs_statusText r
                               else ''Failed to fetch from registry'') (rs_status r)"
      "\<forall>r. fst (missing_upstream (upstream_state ?s) rq'') = Resolved r
          \<and> (response_ok r
              \<or> 300 \<le> rs_status r \<and> rs_status r \<le> 599 \<and> rs_status r \<noteq> 304)
          \<and> \<not> (rs_status r = 500 \<and> rs_statusText r = ''Internal server error'') \<longrightarrow>
          fst ?M \<noteq> json_error ''Internal server error'' 500"
    by blast
  from m(1) d dn have "fst ?M = json_error (if rs_statusText not_found_response \<noteq> []
      then rs_statusText not_found_response else ''Failed to fetch from registry'')
      (rs_status not_found_response)"
    by simp
  then have 5: "fst ?M = json_error ''Not Found'' 404" by (simp add: not_found_response_def)
  from m(2) d dn have 6: "fst ?M \<noteq> json_error ''Internal server error'' 500" by simp
  from a an b c co d dn 1 2 3 4 5 6 p show ?thesis by blast
qed

subsection \<open>The conditional-mismatch status\<close>




section \<open>Properties of the client\<close>

subsection \<open>Traces and requests of the client\<close>

lemma events_observe [simp]: "events (observe e s) = events s @ [e]"
  by (simp add: observe_def)

lemma registry_state_observe [simp]: "registry_state (observe e s) = registry_state s"
  by (simp add: observe_def)

lemma auth_token_observe [simp]: "auth_token (observe e s) = auth_token s"
  by (simp add: observe_def)

lemma requests_append [simp]: "requests (xs @ ys) = requests xs @ requests ys"
  by (induction xs rule: requests.induct) simp_all

lemma actions_append [simp]: "actions (xs @ ys) = actions xs @ actions ys"
  by (induction xs rule: actions.induct) simp_all

lemma new_events_append [simp]: "events s' = events s @ es \<Longrightarrow> new_events s s' = es"
  by (simp add: new_events_def)

lemma headers_values_append [simp]:
  "headers_values n (xs @ ys) = headers_values n xs @ headers_values n ys"
  by (induction xs) auto

lemma headers_values_set_other:
  "\<not> same_name n k \<Longrightarrow> headers_values n (headers_set k v hs) = headers_values n hs"
  by (simp add: headers_set_def headers_values_delete_other same_name_def)

lemma headers_values_set_same:
  "same_name n k \<Longrightarrow> headers_values n (headers_set k v hs) = [v]"
  by (simp add: headers_set_def headers_values_delete_same same_name_def)

lemma accept_names:
  "same_name ''Accept'' ''Accept''"
  "\<not> same_name ''Accept'' ''Cache-Control''"
  "\<not> same_name ''Accept'' ''Content-Type''"
  "\<not> same_name ''Content-Type'' ''Accept''"
  "\<not> same_name ''Accept'' ''if-none-match''"
  "\<not> same_name ''Accept'' ''if-modified-since''"
  "\<not> same_name ''Accept'' ''Authorization''"
  by code_simp+

lemma accept_of_config:
  "accept_of (config_of token method url [(''Accept'', mt)]) = Some mt"
  by (simp add: accept_of_def config_of_def request_interceptor_def headers_get_def
      instance_headers_def Let_def headers_values_set_other headers_values_set_same
      headers_values_delete_other accept_names)

lemma config_of_fields [simp]:
  "ax_method (config_of token method url hdrs) = method"
  "ax_url (config_of token method url hdrs) = url"
  by (simp_all add: config_of_def request_interceptor_def Let_def)

text \<open>One request through the instance, by the outcome of the adapter.\<close>

lemma apiClient_request_eq:
  "apiClient_request reg method url hdrs validateStatus s =
     (let config = config_of (auth_token s) method url hdrs;
          out = fst (reg (registry_state s) config);
          s1 = observe (Sent config) (s\<lparr>registry_state := snd (reg (registry_state s) config)\<rparr>)
      in case out of
           NetworkError \<Rightarrow> (Inl AxiosError, observe LogApiError s1)
         | Answered response \<Rightarrow>
             (if validateStatus (ar_status response) then (Inr response, s1)
              else (Inl AxiosError, observe LogApiError s1)))"
  by (cases "reg (registry_state s) (config_of (auth_token s) method url hdrs)")
     (simp add: apiClient_request_def Let_def split: axios_outcome.splits)

lemma apiClient_request_effects:
  "events (snd (apiClient_request reg method url hdrs v s)) =
      events s @ Sent (config_of (auth_token s) method url hdrs) #
        (case fst (apiClient_request reg method url hdrs v s) of
           Inl e \<Rightarrow> [LogApiError] | Inr r \<Rightarrow> [])
   \<and> auth_token (snd (apiClient_request reg method url hdrs v s)) = auth_token s
   \<and> registry_state (snd (apiClient_request reg method url hdrs v s)) =
       snd (reg (registry_state s) (config_of (auth_token s) method url hdrs))"
  by (simp add: apiClient_request_eq Let_def split: axios_outcome.splits)

lemma apiClient_request_result:
  "fst (apiClient_request reg method url hdrs v s) =
     (case fst (reg (registry_state s) (config_of (auth_token s) method url hdrs)) of
        NetworkError \<Rightarrow> Inl AxiosError
      | Answered r \<Rightarrow> if v (ar_status r) then Inr r else Inl AxiosError)"
  by (simp add: apiClient_request_eq Let_def split: axios_outcome.splits)


subsection \<open>Manifest Resolver\<close>

lemma explicit_run:
  assumes "config = config_of (auth_token s) ''get'' (manifest_url repository reference)
             [(''Accept'', mt)]"
  shows "fst (fetchManifests_explicit reg repository reference mt s) =
           (case fst (reg (registry_state s) config) of
              NetworkError \<Rightarrow> None
            | Answered r \<Rightarrow> if ar_status r = 200 then Some (manifest_of r) else None)
       \<and> requests (events (snd (fetchManifests_explicit reg repository reference mt s))) =
           requests (events s) @ [config]"
  by (simp add: assms fetchManifests_explicit_def apiClient_get_def apiClient_request_eq
      Let_def default_validateStatus_def split: axios_outcome.splits)

lemma probe_hit:
  assumes "config = config_of (auth_token s) ''get'' (manifest_url repository reference)
             [(''Accept'', mt)]"
    and "fst (reg (registry_state s) config) = Answered r" and "ar_status r = 200"
  shows "fetchManifests_probe reg repository reference (mt # rest) s =
           (Some (manifest_of r),
            observe (Sent config) (s\<lparr>registry_state := snd (reg (registry_state s) config)\<rparr>))"
  using assms(2,3)
  by (simp add: assms(1) apiClient_get_def apiClient_request_eq Let_def)

lemma probe_miss:
  assumes "config = config_of (auth_token s) ''get'' (manifest_url repository reference)
             [(''Accept'', mt)]"
    and "\<not> is_200 (fst (reg (registry_state s) config))"
  shows "\<exists>s'. fetchManifests_probe reg repository reference (mt # rest) s =
              fetchManifests_probe reg repository reference rest s'
          \<and> registry_state s' = snd (reg (registry_state s) config)
          \<and> auth_token s' = auth_token s
          \<and> events s' = events s @ Sent config #
               (if is_404 (fst (reg (registry_state s) config)) then []
                else [LogApiError, ErrorManifestFailed repository reference mt])"
proof (cases "fst (reg (registry_state s) config)")
  case NetworkError
  then show ?thesis
    apply (simp add: assms(1) apiClient_get_def apiClient_request_eq Let_def is_404_def)
    apply (rule exI, rule conjI, rule refl)
    apply simp
    done
next
  case (Answered r)
  with assms(2) have ne: "ar_status r \<noteq> 200" by (simp add: is_200_def)
  show ?thesis
  proof (cases "ar_status r = 404")
    case True
    with Answered show ?thesis
      apply (simp add: assms(1) apiClient_get_def apiClient_request_eq Let_def is_404_def)
      apply (rule exI, rule conjI, rule refl)
      apply simp
      done
  next
    case False
    with Answered ne show ?thesis
      apply (simp add: assms(1) apiClient_get_def apiClient_request_eq Let_def is_404_def)
      apply (rule exI, rule conjI, rule refl)
      apply simp
      done
  qed
qed

lemma probe_nil [simp]:
  "fetchManifests_probe reg repository reference [] s = (None, s)"
  by simp

text \<open>
  C9. When a media type is supplied (the argument is a non-empty string, which is what
  the test \<open>if (mediaType)\<close> accepts), \<open>fetchManifests\<close> sends exactly one request, a
  GET of the manifest URL whose Accept header is that media type. On a response with
  status 200 it returns the value of the \<open>docker-content-digest\<close> response header as the
  digest, together with the parsed body; when the request fails or the status is not
  200 it returns \<open>null\<close>.
\<close>

theorem fetchManifests_explicit_media_type:
  assumes "mediaType = Some mt" and "mt \<noteq> []"
    and "config = config_of (auth_token s) ''get'' (manifest_url repository reference)
           [(''Accept'', mt)]"
  shows "requests (new_events s (snd (fetchManifests reg repository reference mediaType s))) =
           [config]
       \<and> accept_of config = Some mt
       \<and> ax_method config = ''get''
       \<and> ax_url config = ''proxy/'' @ repository @ ''/manifests/'' @ reference
       \<and> (\<forall>r. fst (reg (registry_state s) config) = Answered r \<and> ar_status r = 200 \<longrightarrow>
             fst (fetchManifests reg repository reference mediaType s) =
               Inr (Some \<lparr>mr_digest = headers_get ''docker-content-digest'' (ar_headers r),
                          mr_data = ar_data r\<rparr>))
       \<and> (fst (reg (registry_state s) config) = NetworkError
            \<or> (\<exists>r. fst (reg (registry_state s) config) = Answered r \<and> ar_status r \<noteq> 200) \<longrightarrow>
             fst (fetchManifests reg repository reference mediaType s) = Inr None)"
proof -
  have t: "truthy mediaType" using assms(1,2) by (simp add: truthy_def)
  have ev: "\<exists>es. events (snd (fetchManifests_explicit reg repository reference mt s)) =
              events s @ es"
    by (simp add: fetchManifests_explicit_def apiClient_get_def apiClient_request_eq Let_def
        split: axios_outcome.splits)
  then obtain es where es:
    "events (snd (fetchManifests_explicit reg repository reference mt s)) = events s @ es"
    by blast
  from explicit_run [OF assms(3), of reg] es
  have rq: "requests es = [config]" by simp
  have f: "fetchManifests reg repository reference mediaType s =
             (Inr (fst (fetchManifests_explicit reg repository reference mt s)),
              snd (fetchManifests_explicit reg repository reference mt s))"
    using t assms(1) by (simp add: fetchManifests_def split: prod.splits)
  show ?thesis
    using explicit_run [OF assms(3), of reg] rq es
    by (auto simp: f accept_of_config assms(3) manifest_of_def manifest_url_def)
qed


lemma is_200_iff: "is_200 out \<longleftrightarrow> (\<exists>r. out = Answered r \<and> ar_status r = 200)"
  by (cases out) (simp_all add: is_200_def)

lemma is_404_not_200: "is_404 out \<Longrightarrow> \<not> is_200 out"
  by (cases out) (simp_all add: is_200_def is_404_def)

text \<open>The probe of the two candidates, by the outcomes of the adapter.\<close>

lemma probe_two:
  assumes c1: "c1 = config_of (auth_token s) ''get'' (manifest_url repository reference)
             [(''Accept'', m1)]"
    and c2: "c2 = config_of (auth_token s) ''get'' (manifest_url repository reference)
             [(''Accept'', m2)]"
    and o1: "o1 = fst (reg (registry_state s) c1)"
    and o2: "o2 = fst (reg (snd (reg (registry_state s) c1)) c2)"
    and res: "res = fetchManifests_probe reg repository reference [m1, m2] s"
  shows "(\<forall>r. o1 = Answered r \<and> ar_status r = 200 \<longrightarrow>
            fst res = Some (manifest_of r) \<and> events (snd res) = events s @ [Sent c1])
       \<and> (\<not> is_200 o1 \<longrightarrow>
            events (snd res) = events s @ Sent c1 #
               (if is_404 o1 then [] else [LogApiError, ErrorManifestFailed repository reference m1])
               @ Sent c2 #
               (if is_200 o2 \<or> is_404 o2 then []
                else [LogApiError, ErrorManifestFailed repository reference m2]))
       \<and> (\<forall>r. \<not> is_200 o1 \<and> o2 = Answered r \<and> ar_status r = 200 \<longrightarrow>
            fst res = Some (manifest_of r))
       \<and> (\<not> is_200 o1 \<and> \<not> is_200 o2 \<longrightarrow> fst res = None)"
proof (cases "is_200 o1")
  case True
  then obtain r where r: "o1 = Answered r" "ar_status r = 200" by (auto simp: is_200_iff)
  from probe_hit [OF c1, of reg r "[m2]"] r o1
  have "res = (Some (manifest_of r),
            observe (Sent c1) (s\<lparr>registry_state := snd (reg (registry_state s) c1)\<rparr>))"
    by (simp add: res)
  with True r show ?thesis by simp
next
  case False
  from probe_miss [OF c1, of reg "[m2]"] False o1 obtain s1 where
    s1: "res = fetchManifests_probe reg repository reference [m2] s1"
      "registry_state s1 = snd (reg (registry_state s) c1)"
      "auth_token s1 = auth_token s"
      "events s1 = events s @ Sent c1 #
         (if is_404 o1 then [] else [LogApiError, ErrorManifestFailed repository reference m1])"
    by (auto simp: res)
  have c2': "c2 = config_of (auth_token s1) ''get'' (manifest_url repository reference)
             [(''Accept'', m2)]"
    by (simp add: c2 s1(3))
  have o2': "o2 = fst (reg (registry_state s1) c2)" by (simp add: o2 s1(2))
  show ?thesis
  proof (cases "is_200 o2")
    case True
    then obtain r where r: "o2 = Answered r" "ar_status r = 200" by (auto simp: is_200_iff)
    from probe_hit [OF c2', of reg r "[]"] r o2'
    have "res = (Some (manifest_of r),
            observe (Sent c2) (s1\<lparr>registry_state := snd (reg (registry_state s1) c2)\<rparr>))"
      by (simp add: s1(1))
    with True r False s1(4) show ?thesis by (auto simp: is_200_iff)
  next
    case no: False
    from probe_miss [OF c2', of reg "[]"] no o2' obtain s2 where
      s2: "res = (None, s2)"
        "events s2 = events s1 @ Sent c2 #
         (if is_404 o2 then [] else [LogApiError, ErrorManifestFailed repository reference m2])"
      by (auto simp: s1(1))
    with no False s1(4) show ?thesis by (auto simp: is_200_iff)
  qed
qed

lemma fetchManifests_probing:
  "\<not> truthy mediaType \<Longrightarrow>
     fetchManifests reg repository reference mediaType s =
       (Inr (fst (fetchManifests_probe reg repository reference
          [''application/vnd.docker.distribution.manifest.v2+json'',
           ''application/vnd.oci.image.index.v1+json''] s)),
        snd (fetchManifests_probe reg repository reference
          [''application/vnd.docker.distribution.manifest.v2+json'',
           ''application/vnd.oci.image.index.v1+json''] s))"
  by (simp add: fetchManifests_def mediaTypes_def split: prod.splits)

text \<open>
  C1. Without a media type, \<open>fetchManifests\<close> asks for the Docker manifest type first
  and for the OCI index type second, one request each with the candidate as the Accept
  header. When the first request is answered with status 200, its digest and body are
  the result and it is the only request sent, whatever the second candidate would have
  given; when the first is not answered with 200 and the second is, the second's digest
  and body are the result. The requests sent are always the first candidate alone or
  the first followed by the second.
\<close>

theorem fetchManifests_probes_in_priority_order:
  assumes "\<not> truthy mediaType"
    and "c1 = config_of (auth_token s) ''get'' (manifest_url repository reference)
           [(''Accept'', ''application/vnd.docker.distribution.manifest.v2+json'')]"
    and "c2 = config_of (auth_token s) ''get'' (manifest_url repository reference)
           [(''Accept'', ''application/vnd.oci.image.index.v1+json'')]"
    and "s' = snd (fetchManifests reg repository reference mediaType s)"
  shows "accept_of c1 = Some ''application/vnd.docker.distribution.manifest.v2+json''
       \<and> accept_of c2 = Some ''application/vnd.oci.image.index.v1+json''
       \<and> (\<forall>r. fst (reg (registry_state s) c1) = Answered r \<and> ar_status r = 200 \<longrightarrow>
             fst (fetchManifests reg repository reference mediaType s) =
               Inr (Some (manifest_of r))
             \<and> requests (new_events s s') = [c1])
       \<and> (\<forall>r. \<not> is_200 (fst (reg (registry_state s) c1))
               \<and> fst (reg (snd (reg (registry_state s) c1)) c2) = Answered r
               \<and> ar_status r = 200 \<longrightarrow>
             fst (fetchManifests reg repository reference mediaType s) =
               Inr (Some (manifest_of r))
             \<and> requests (new_events s s') = [c1, c2])
       \<and> (requests (new_events s s') = [c1] \<or> requests (new_events s s') = [c1, c2])"
proof -
  note p = probe_two [OF assms(2) assms(3) refl refl refl, of reg]
  note f = fetchManifests_probing [OF assms(1), of reg repository reference s]
  have a: "accept_of c1 = Some ''application/vnd.docker.distribution.manifest.v2+json''"
    "accept_of c2 = Some ''application/vnd.oci.image.index.v1+json''"
    by (simp_all add: assms(2,3) accept_of_config)
  have b: "\<forall>r. fst (reg (registry_state s) c1) = Answered r \<and> ar_status r = 200 \<longrightarrow>
             fst (fetchManifests reg repository reference mediaType s) =
               Inr (Some (manifest_of r))
             \<and> requests (new_events s s') = [c1]"
    using p by (auto simp: f assms(4))
  have c: "\<not> is_200 (fst (reg (registry_state s) c1)) \<longrightarrow>
             requests (new_events s s') = [c1, c2]"
    using p by (auto simp: f assms(4))
  have d: "\<forall>r. \<not> is_200 (fst (reg (registry_state s) c1))
               \<and> fst (reg (snd (reg (registry_state s) c1)) c2) = Answered r
               \<and> ar_status r = 200 \<longrightarrow>
             fst (fetchManifests reg repository reference mediaType s) =
               Inr (Some (manifest_of r))"
    using p by (auto simp: f)
  have e: "requests (new_events s s') = [c1] \<or> requests (new_events s s') = [c1, c2]"
    using b c by (auto simp: is_200_iff)
  from a b c d e show ?thesis by blast
qed

text \<open>
  C8. Without a media type: when the first candidate is not answered with status 200,
  whether by a 404, another status or a failed request, the second candidate is still
  requested; a 404 moves on without an error line for the candidate, while any other
  miss is written to the console as an error for that candidate; when neither candidate
  is answered with 200 the result is \<open>null\<close>, returned and not thrown; and a first
  miss does not prevent the second candidate's 200 from being the result.
\<close>

theorem fetchManifests_probe_misses_are_not_fatal:
  assumes "\<not> truthy mediaType"
    and "c1 = config_of (auth_token s) ''get'' (manifest_url repository reference)
           [(''Accept'', ''application/vnd.docker.distribution.manifest.v2+json'')]"
    and "c2 = config_of (auth_token s) ''get'' (manifest_url repository reference)
           [(''Accept'', ''application/vnd.oci.image.index.v1+json'')]"
    and "o1 = fst (reg (registry_state s) c1)"
    and "o2 = fst (reg (snd (reg (registry_state s) c1)) c2)"
    and "s' = snd (fetchManifests reg repository reference mediaType s)"
  shows "(\<not> is_200 o1 \<longrightarrow> requests (new_events s s') = [c1, c2])
       \<and> (is_404 o1 \<longrightarrow>
            ErrorManifestFailed repository reference
              ''application/vnd.docker.distribution.manifest.v2+json'' \<notin> set (new_events s s'))
       \<and> (\<not> is_200 o1 \<and> \<not> is_404 o1 \<longrightarrow>
            ErrorManifestFailed repository reference
              ''application/vnd.docker.distribution.manifest.v2+json'' \<in> set (new_events s s'))
       \<and> (\<not> is_200 o1 \<and> \<not> is_200 o2 \<and> \<not> is_404 o2 \<longrightarrow>
            ErrorManifestFailed repository reference
              ''application/vnd.oci.image.index.v1+json'' \<in> set (new_events s s'))
       \<and> (\<not> is_200 o1 \<and> \<not> is_200 o2 \<longrightarrow>
            fst (fetchManifests reg repository reference mediaType s) = Inr None)
       \<and> (\<forall>r. \<not> is_200 o1 \<and> o2 = Answered r \<and> ar_status r = 200 \<longrightarrow>
            fst (fetchManifests reg repository reference mediaType s) =
              Inr (Some (manifest_of r)))"
proof -
  note p = probe_two [OF assms(2) assms(3) assms(4) assms(5) refl]
  note f = fetchManifests_probing [OF assms(1), of reg repository reference s]
  have 1: "\<not> is_200 o1 \<longrightarrow> requests (new_events s s') = [c1, c2]"
    using p by (auto simp: f assms(6))
  have 2: "is_404 o1 \<longrightarrow>
            ErrorManifestFailed repository reference
              ''application/vnd.docker.distribution.manifest.v2+json'' \<notin> set (new_events s s')"
    using p is_404_not_200 [of o1] by (auto simp: f assms(6))
  have 3: "\<not> is_200 o1 \<and> \<not> is_404 o1 \<longrightarrow>
            ErrorManifestFailed repository reference
              ''application/vnd.docker.distribution.manifest.v2+json'' \<in> set (new_events s s')"
    using p by (auto simp: f assms(6))
  have 4: "\<not> is_200 o1 \<and> \<not> is_200 o2 \<and> \<not> is_404 o2 \<longrightarrow>
            ErrorManifestFailed repository reference
              ''application/vnd.oci.image.index.v1+json'' \<in> set (new_events s s')"
    using p by (auto simp: f assms(6))
  have 5: "\<not> is_200 o1 \<and> \<not> is_200 o2 \<longrightarrow>
            fst (fetchManifests reg repository reference mediaType s) = Inr None"
    using p by (auto simp: f)
  have 6: "\<forall>r. \<not> is_200 o1 \<and> o2 = Answered r \<and> ar_status r = 200 \<longrightarrow>
            fst (fetchManifests reg repository reference mediaType s) =
              Inr (Some (manifest_of r))"
    using p by (auto simp: f)
  from 1 2 3 4 5 6 show ?thesis by blast
qed


theorem fetchManifests_explicit_media_type_witness:
  "Some ''application/vnd.oci.image.index.v1+json'' =
     Some ''application/vnd.oci.image.index.v1+json''
   \<and> ''application/vnd.oci.image.index.v1+json'' \<noteq> []
   \<and> (fst (both_kinds_registry ()
             (config_of None ''get'' (manifest_url ''app'' ''sha256:abc'')
                [(''Accept'', ''application/vnd.oci.image.index.v1+json'')])) =
        Answered \<lparr>ar_status = 200, ar_headers = [(''docker-content-digest'', ''sha256:index'')],
                  ar_data = JObj [(''schemaVersion'', JNum 2), (''manifests'', JArr [])]\<rparr>
      \<and> ar_status \<lparr>ar_status = 200, ar_headers = [(''docker-content-digest'', ''sha256:index'')],
                  ar_data = JObj [(''schemaVersion'', JNum 2), (''manifests'', JArr [])]\<rparr> = 200)
   \<and> fst (fetchManifests both_kinds_registry ''app'' ''sha256:abc''
            (Some ''application/vnd.oci.image.index.v1+json'')
            \<lparr>registry_state = (), auth_token = None, events = []\<rparr>) =
       Inr (Some \<lparr>mr_digest = Some ''sha256:index'',
                  mr_data = JObj [(''schemaVersion'', JNum 2), (''manifests'', JArr [])]\<rparr>)
   \<and> length (requests (new_events \<lparr>registry_state = (), auth_token = None, events = []\<rparr>
        (snd (fetchManifests both_kinds_registry ''app'' ''sha256:abc''
            (Some ''application/vnd.oci.image.index.v1+json'')
            \<lparr>registry_state = (), auth_token = None, events = []\<rparr>)))) = 1
   \<and> fst (unreachable_registry ()
             (config_of None ''get'' (manifest_url ''app'' ''sha256:abc'')
                [(''Accept'', ''application/vnd.oci.image.index.v1+json'')])) = NetworkError
   \<and> fst (fetchManifests unreachable_registry ''app'' ''sha256:abc''
            (Some ''application/vnd.oci.image.index.v1+json'')
            \<lparr>registry_state = (), auth_token = None, events = []\<rparr>) = Inr None"
proof -
  let ?mt = "''application/vnd.oci.image.index.v1+json''"
  let ?s = "\<lparr>registry_state = (), auth_token = None, events = []\<rparr>"
  let ?c = "config_of None ''get'' (manifest_url ''app'' ''sha256:abc'') [(''Accept'', ?mt)]"
  let ?r = "\<lparr>ar_status = 200, ar_headers = [(''docker-content-digest'', ''sha256:index'')],
             ar_data = JObj [(''schemaVersion'', JNum 2), (''manifests'', JArr [])]\<rparr>"
  have c: "?c = config_of (auth_token ?s) ''get'' (manifest_url ''app'' ''sha256:abc'')
             [(''Accept'', ?mt)]" by simp
  have ne: "?mt \<noteq> []" by simp
  have a: "fst (both_kinds_registry (registry_state ?s) ?c) = Answered ?r \<and> ar_status ?r = 200"
    by (simp add: both_kinds_registry_def accept_of_config)
  have b: "fst (unreachable_registry (registry_state ?s) ?c) = NetworkError"
    by (simp add: unreachable_registry_def)
  have d: "headers_get ''docker-content-digest'' (ar_headers ?r) = Some ''sha256:index''"
    by code_simp
  from fetchManifests_explicit_media_type [OF refl ne c, of both_kinds_registry] a
  have 1: "fst (fetchManifests both_kinds_registry ''app'' ''sha256:abc'' (Some ?mt) ?s) =
        Inr (Some \<lparr>mr_digest = headers_get ''docker-content-digest'' (ar_headers ?r),
                   mr_data = ar_data ?r\<rparr>)"
    and 2: "requests (new_events ?s (snd (fetchManifests both_kinds_registry ''app''
              ''sha256:abc'' (Some ?mt) ?s))) = [?c]"
    by blast+
  from fetchManifests_explicit_media_type [OF refl ne c, of unreachable_registry] b
  have 3: "fst (fetchManifests unreachable_registry ''app'' ''sha256:abc'' (Some ?mt) ?s) =
        Inr None"
    by blast
  from 1 d have r1: "fst (fetchManifests both_kinds_registry ''app'' ''sha256:abc'' (Some ?mt) ?s) =
        Inr (Some \<lparr>mr_digest = Some ''sha256:index'',
                  mr_data = JObj [(''schemaVersion'', JNum 2), (''manifests'', JArr [])]\<rparr>)"
    by simp
  from 2 have r2: "length (requests (new_events ?s (snd (fetchManifests both_kinds_registry
        ''app'' ''sha256:abc'' (Some ?mt) ?s)))) = 1"
    by simp
  from a b have ra: "fst (both_kinds_registry () ?c) = Answered ?r \<and> ar_status ?r = 200"
    and rb: "fst (unreachable_registry () ?c) = NetworkError"
    by simp_all
  from ne ra rb r1 r2 3 show ?thesis by blast
qed

theorem fetchManifests_probes_in_priority_order_witness:
  "\<not> truthy None
   \<and> (fst (both_kinds_registry ()
             (config_of None ''get'' (manifest_url ''app'' ''latest'')
                [(''Accept'', ''application/vnd.docker.distribution.manifest.v2+json'')])) =
        Answered \<lparr>ar_status = 200, ar_headers = [(''docker-content-digest'', ''sha256:single'')],
                  ar_data = JObj [(''schemaVersion'', JNum 2), (''layers'', JArr [])]\<rparr>
      \<and> ar_status \<lparr>ar_status = 200, ar_headers = [(''docker-content-digest'', ''sha256:single'')],
                  ar_data = JObj [(''schemaVersion'', JNum 2), (''layers'', JArr [])]\<rparr> = 200)
   \<and> is_200 (fst (both_kinds_registry ()
             (config_of None ''get'' (manifest_url ''app'' ''latest'')
                [(''Accept'', ''application/vnd.oci.image.index.v1+json'')])))
   \<and> fst (fetchManifests both_kinds_registry ''app'' ''latest'' None
            \<lparr>registry_state = (), auth_token = None, events = []\<rparr>) =
       Inr (Some \<lparr>mr_digest = Some ''sha256:single'',
                  mr_data = JObj [(''schemaVersion'', JNum 2), (''layers'', JArr [])]\<rparr>)
   \<and> map accept_of (requests (new_events \<lparr>registry_state = (), auth_token = None, events = []\<rparr>
        (snd (fetchManifests both_kinds_registry ''app'' ''latest'' None
            \<lparr>registry_state = (), auth_token = None, events = []\<rparr>)))) =
       [Some ''application/vnd.docker.distribution.manifest.v2+json'']"
proof -
  let ?m1 = "''application/vnd.docker.distribution.manifest.v2+json''"
  let ?m2 = "''application/vnd.oci.image.index.v1+json''"
  let ?s = "\<lparr>registry_state = (), auth_token = None, events = []\<rparr>"
  let ?c1 = "config_of None ''get'' (manifest_url ''app'' ''latest'') [(''Accept'', ?m1)]"
  let ?c2 = "config_of None ''get'' (manifest_url ''app'' ''latest'') [(''Accept'', ?m2)]"
  let ?r = "\<lparr>ar_status = 200, ar_headers = [(''docker-content-digest'', ''sha256:single'')],
             ar_data = JObj [(''schemaVersion'', JNum 2), (''layers'', JArr [])]\<rparr>"
  have n: "\<not> truthy None" by (simp add: truthy_def)
  have c1: "?c1 = config_of (auth_token ?s) ''get'' (manifest_url ''app'' ''latest'')
             [(''Accept'', ?m1)]" by simp
  have c2: "?c2 = config_of (auth_token ?s) ''get'' (manifest_url ''app'' ''latest'')
             [(''Accept'', ?m2)]" by simp
  have a: "fst (both_kinds_registry (registry_state ?s) ?c1) = Answered ?r \<and> ar_status ?r = 200"
    by (simp add: both_kinds_registry_def accept_of_config)
  have b: "is_200 (fst (both_kinds_registry () ?c2))"
    by (simp add: both_kinds_registry_def accept_of_config is_200_def)
  have d: "manifest_of ?r = \<lparr>mr_digest = Some ''sha256:single'',
                  mr_data = JObj [(''schemaVersion'', JNum 2), (''layers'', JArr [])]\<rparr>"
    by code_simp
  from fetchManifests_probes_in_priority_order [OF n c1 c2 refl, of both_kinds_registry] a
  have 1: "fst (fetchManifests both_kinds_registry ''app'' ''latest'' None ?s) =
        Inr (Some (manifest_of ?r))"
    and 2: "requests (new_events ?s (snd (fetchManifests both_kinds_registry ''app''
              ''latest'' None ?s))) = [?c1]"
    and 3: "accept_of ?c1 = Some ?m1"
    by blast+
  from 1 d have r1: "fst (fetchManifests both_kinds_registry ''app'' ''latest'' None ?s) =
       Inr (Some \<lparr>mr_digest = Some ''sha256:single'',
                  mr_data = JObj [(''schemaVersion'', JNum 2), (''layers'', JArr [])]\<rparr>)"
    by simp
  from 2 3 have r2: "map accept_of (requests (new_events ?s (snd (fetchManifests
        both_kinds_registry ''app'' ''latest'' None ?s)))) = [Some ?m1]"
    by simp
  from a have ra: "fst (both_kinds_registry () ?c1) = Answered ?r \<and> ar_status ?r = 200" by simp
  from n ra b r1 r2 show ?thesis by blast
qed


theorem fetchManifests_probe_misses_are_not_fatal_witness:
  "\<not> truthy None
   \<and> (is_404 (fst (fake_registry []
          (config_of None ''get'' (manifest_url ''app'' ''latest'')
             [(''Accept'', ''application/vnd.docker.distribution.manifest.v2+json'')])))
      \<and> \<not> is_200 (fst (fake_registry []
          (config_of None ''get'' (manifest_url ''app'' ''latest'')
             [(''Accept'', ''application/vnd.docker.distribution.manifest.v2+json'')])))
      \<and> \<not> is_200 (fst (fake_registry []
          (config_of None ''get'' (manifest_url ''app'' ''latest'')
             [(''Accept'', ''application/vnd.oci.image.index.v1+json'')]))))
   \<and> fst (fetchManifests fake_registry ''app'' ''latest'' None
            \<lparr>registry_state = [], auth_token = None, events = []\<rparr>) = Inr None
   \<and> map accept_of (requests (new_events \<lparr>registry_state = [], auth_token = None, events = []\<rparr>
        (snd (fetchManifests fake_registry ''app'' ''latest'' None
            \<lparr>registry_state = [], auth_token = None, events = []\<rparr>)))) =
       [Some ''application/vnd.docker.distribution.manifest.v2+json'',
        Some ''application/vnd.oci.image.index.v1+json'']
   \<and> ErrorManifestFailed ''app'' ''latest''
         ''application/vnd.docker.distribution.manifest.v2+json''
       \<notin> set (new_events \<lparr>registry_state = [], auth_token = None, events = []\<rparr>
        (snd (fetchManifests fake_registry ''app'' ''latest'' None
            \<lparr>registry_state = [], auth_token = None, events = []\<rparr>)))
   \<and> (\<not> is_200 (fst (unreachable_registry ()
          (config_of None ''get'' (manifest_url ''app'' ''latest'')
             [(''Accept'', ''application/vnd.docker.distribution.manifest.v2+json'')])))
      \<and> \<not> is_404 (fst (unreachable_registry ()
          (config_of None ''get'' (manifest_url ''app'' ''latest'')
             [(''Accept'', ''application/vnd.docker.distribution.manifest.v2+json'')])))
      \<and> \<not> is_200 (fst (unreachable_registry ()
          (config_of None ''get'' (manifest_url ''app'' ''latest'')
             [(''Accept'', ''application/vnd.oci.image.index.v1+json'')])))
      \<and> \<not> is_404 (fst (unreachable_registry ()
          (config_of None ''get'' (manifest_url ''app'' ''latest'')
             [(''Accept'', ''application/vnd.oci.image.index.v1+json'')]))))
   \<and> ErrorManifestFailed ''app'' ''latest''
         ''application/vnd.docker.distribution.manifest.v2+json''
       \<in> set (new_events \<lparr>registry_state = (), auth_token = None, events = []\<rparr>
        (snd (fetchManifests unreachable_registry ''app'' ''latest'' None
            \<lparr>registry_state = (), auth_token = None, events = []\<rparr>)))
   \<and> ErrorManifestFailed ''app'' ''latest'' ''application/vnd.oci.image.index.v1+json''
       \<in> set (new_events \<lparr>registry_state = (), auth_token = None, events = []\<rparr>
        (snd (fetchManifests unreachable_registry ''app'' ''latest'' None
            \<lparr>registry_state = (), auth_token = None, events = []\<rparr>)))
   \<and> fst (fetchManifests unreachable_registry ''app'' ''latest'' None
            \<lparr>registry_state = (), auth_token = None, events = []\<rparr>) = Inr None"
proof -
  let ?m1 = "''application/vnd.docker.distribution.manifest.v2+json''"
  let ?m2 = "''application/vnd.oci.image.index.v1+json''"
  let ?s = "\<lparr>registry_state = ([] :: (string \<times> string) list), auth_token = None,
             events = []\<rparr>"
  let ?t = "\<lparr>registry_state = (), auth_token = None, events = []\<rparr>"
  let ?c1 = "config_of None ''get'' (manifest_url ''app'' ''latest'') [(''Accept'', ?m1)]"
  let ?c2 = "config_of None ''get'' (manifest_url ''app'' ''latest'') [(''Accept'', ?m2)]"
  let ?F = "fetchManifests fake_registry ''app'' ''latest'' None ?s"
  let ?U = "fetchManifests unreachable_registry ''app'' ''latest'' None ?t"
  have n: "\<not> truthy None" by (simp add: truthy_def)
  have c1: "?c1 = config_of (auth_token ?s) ''get'' (manifest_url ''app'' ''latest'')
             [(''Accept'', ?m1)]" by simp
  have c2: "?c2 = config_of (auth_token ?s) ''get'' (manifest_url ''app'' ''latest'')
             [(''Accept'', ?m2)]" by simp
  have d1: "?c1 = config_of (auth_token ?t) ''get'' (manifest_url ''app'' ''latest'')
             [(''Accept'', ?m1)]" by simp
  have d2: "?c2 = config_of (auth_token ?t) ''get'' (manifest_url ''app'' ''latest'')
             [(''Accept'', ?m2)]" by simp
  have f: "is_404 (fst (fake_registry [] ?c1)) \<and> \<not> is_200 (fst (fake_registry [] ?c1))
         \<and> \<not> is_200 (fst (fake_registry [] ?c2))"
    by (simp add: fake_registry_def accept_of_config is_404_def is_200_def manifest_url_def)
  have u: "\<not> is_200 (fst (unreachable_registry () ?c1))
         \<and> \<not> is_404 (fst (unreachable_registry () ?c1))
         \<and> \<not> is_200 (fst (unreachable_registry () ?c2))
         \<and> \<not> is_404 (fst (unreachable_registry () ?c2))"
    by (simp add: unreachable_registry_def is_404_def is_200_def)
  have fw: "snd (fake_registry (registry_state ?s) ?c1) = []"
    by (simp add: fake_registry_def accept_of_config manifest_url_def)
  have uw: "snd (unreachable_registry (registry_state ?t) ?c1) = ()" by simp
  note pf = fetchManifests_probe_misses_are_not_fatal [OF n c1 c2 refl refl refl,
      of fake_registry]
  note pu = fetchManifests_probe_misses_are_not_fatal [OF n d1 d2 refl refl refl,
      of unreachable_registry]
  from pf f fw have 1: "fst ?F = Inr None"
    and 2: "requests (new_events ?s (snd ?F)) = [?c1, ?c2]"
    and 3: "ErrorManifestFailed ''app'' ''latest'' ?m1 \<notin> set (new_events ?s (snd ?F))"
    by simp_all
  from pu u uw have 4: "fst ?U = Inr None"
    and 5: "ErrorManifestFailed ''app'' ''latest'' ?m1 \<in> set (new_events ?t (snd ?U))"
    and 6: "ErrorManifestFailed ''app'' ''latest'' ?m2 \<in> set (new_events ?t (snd ?U))"
    by simp_all
  from 2 have 7: "map accept_of (requests (new_events ?s (snd ?F))) = [Some ?m1, Some ?m2]"
    by (simp add: accept_of_config)
  from n f u 1 3 4 5 6 7 show ?thesis by blast
qed

declare fetchManifests_probe.simps [simp del]

subsection \<open>Failed requests\<close>

lemma default_validateStatus_failed:
  "request_failed out \<Longrightarrow> \<not> is_200 out"
  by (cases out) (auto simp: request_failed_def is_200_def default_validateStatus_def)

lemma apiClient_get_failed:
  "request_failed (fst (reg (registry_state s) (config_of (auth_token s) ''get'' url hdrs)))
   \<Longrightarrow> fst (apiClient_get reg url hdrs default_validateStatus s) = Inl AxiosError"
  by (auto simp: apiClient_get_def apiClient_request_result request_failed_def
      split: axios_outcome.splits)

lemma client_operations_absorb_failed_requests:
  assumes "\<forall>w rq. request_failed (fst (reg w rq))"
  shows "fst (fetchRepositories reg s) = Inr (JArr [])
       \<and> fst (fetchTags reg repository s) = Inr (JArr [])
       \<and> fst (fetchManifests reg repository reference mediaType s) = Inr None
       \<and> (\<forall>mt. decodeURIComponent encoded = Inr mt \<longrightarrow>
            fst (fetchBlob reg repository digest encoded s) = Inr (JObj []))"
proof (intro conjI allI impI)
  have g: "\<And>url hdrs t. fst (apiClient_get reg url hdrs default_validateStatus t) = Inl AxiosError"
    using assms by (simp add: apiClient_get_failed)
  show "fst (fetchRepositories reg s) = Inr (JArr [])"
    using g [of "''/proxy/_catalog''" "[]" s]
    by (cases "apiClient_get reg ''/proxy/_catalog'' [] default_validateStatus s")
       (auto simp: fetchRepositories_def)
  show "fst (fetchTags reg repository s) = Inr (JArr [])"
    using g [of "''/proxy/'' @ repository @ ''/tags/list''" "[]" s]
    by (cases "apiClient_get reg (''/proxy/'' @ repository @ ''/tags/list'') []
                 default_validateStatus s")
       (auto simp: fetchTags_def)
  show "fst (fetchManifests reg repository reference mediaType s) = Inr None"
  proof (cases "truthy mediaType")
    case True
    then show ?thesis
      using g [of "manifest_url repository reference" "[(''Accept'', the mediaType)]" s]
      by (cases "apiClient_get reg (manifest_url repository reference)
                   [(''Accept'', the mediaType)] default_validateStatus s")
         (auto simp: fetchManifests_def fetchManifests_explicit_def)
  next
    case False
    have n: "\<And>c t. \<not> is_200 (fst (reg t c))"
      using assms by (simp add: default_validateStatus_failed)
    from probe_two [where reg = reg and repository = repository and reference = reference
        and ?m1.0 = "''application/vnd.docker.distribution.manifest.v2+json''"
        and ?m2.0 = "''application/vnd.oci.image.index.v1+json''" and s = s,
        OF refl refl refl refl refl] n
    show ?thesis
      by (simp add: fetchManifests_probing [OF False])
  qed
next
  fix mt assume "decodeURIComponent encoded = Inr mt"
  moreover have "fst (apiClient_get reg (''/proxy/'' @ repository @ ''/blobs/'' @ digest)
      [(''Accept'', mt)] default_validateStatus s) = Inl AxiosError"
    using assms by (simp add: apiClient_get_failed)
  ultimately show "fst (fetchBlob reg repository digest encoded s) = Inr (JObj [])"
    by (cases "apiClient_get reg (''/proxy/'' @ repository @ ''/blobs/'' @ digest)
                 [(''Accept'', mt)] default_validateStatus s")
       (auto simp: fetchBlob_def)
qed

text \<open>
  C10. The claim: for every input, and whatever failure the request meets, no client
  operation throws or rejects. The lemma above gives the part that holds: when every
  request fails, \<open>fetchRepositories\<close> and \<open>fetchTags\<close> return the empty array,
  \<open>fetchManifests\<close> returns \<open>null\<close>, and \<open>fetchBlob\<close> returns the empty object
  provided its media type decodes. What \<open>fetchBlob\<close> does on the media type \<open>%\<close>, for
  every registry, repository, digest and state: \<open>decodeURIComponent\<close> throws a URIError
  before the \<open>try\<close> block is entered, so the promise is rejected with it and no request
  is sent.
\<close>

theorem fetchBlob_rejects_on_malformed_media_type:
  "decodeURIComponent ''%'' = Inl URIError
   \<and> fetchBlob reg repository digest ''%'' s = (Inl URIError, s)"
  by (simp add: fetchBlob_def)


subsection \<open>Tag Deletion Orchestrator\<close>

lemma probe_lookups:
  "\<exists>es. events (snd (fetchManifests_probe reg repository reference [m1, m2] s)) =
           events s @ es
      \<and> (actions es = [Lookup (manifest_url repository reference)]
         \<or> actions es = [Lookup (manifest_url repository reference),
                          Lookup (manifest_url repository reference)])"
proof -
  note p = probe_two [where reg = reg and repository = repository and reference = reference
        and ?m1.0 = m1 and ?m2.0 = m2 and s = s, OF refl refl refl refl refl]
  let ?c1 = "config_of (auth_token s) ''get'' (manifest_url repository reference)
               [(''Accept'', m1)]"
  show ?thesis
  proof (cases "is_200 (fst (reg (registry_state s) ?c1))")
    case True
    then obtain r where "fst (reg (registry_state s) ?c1) = Answered r" "ar_status r = 200"
      by (auto simp: is_200_iff)
    with p have "events (snd (fetchManifests_probe reg repository reference [m1, m2] s)) =
                   events s @ [Sent ?c1]" by blast
    then show ?thesis by simp
  next
    case False
    with p obtain xs ys where
      "events (snd (fetchManifests_probe reg repository reference [m1, m2] s)) =
         events s @ Sent ?c1 # xs @
           Sent (config_of (auth_token s) ''get'' (manifest_url repository reference)
                   [(''Accept'', m2)]) # ys"
      "xs = [] \<or> xs = [LogApiError, ErrorManifestFailed repository reference m1]"
      "ys = [] \<or> ys = [LogApiError, ErrorManifestFailed repository reference m2]"
      by auto
    then show ?thesis by auto
  qed
qed

lemma apiClient_delete_events:
  "\<exists>es. events (snd (apiClient_delete reg url s)) = events s @ es
      \<and> actions es = [Delete url]"
  by (auto simp: apiClient_delete_def apiClient_request_eq Let_def split: axios_outcome.splits)

lemma deleteTag_eq:
  "deleteTag reg repository tag s =
     (let P = fetchManifests_probe reg repository tag
                [''application/vnd.docker.distribution.manifest.v2+json'',
                 ''application/vnd.oci.image.index.v1+json''] s
      in case fst P of
           None \<Rightarrow> (Inr (), observe (ErrorTagDeleteFailed tag repository) (snd P))
         | Some m \<Rightarrow>
             if \<not> truthy (mr_digest m)
             then (Inr (), observe (ErrorTagDeleteFailed tag repository) (snd P))
             else
               (let D = apiClient_delete reg (delete_url repository (the (mr_digest m))) (snd P)
                in case fst D of
                     Inl e \<Rightarrow> (Inr (), observe (ErrorTagDeleteFailed tag repository) (snd D))
                   | Inr r \<Rightarrow> (Inr (), observe (LogTagDeleted tag repository) (snd D))))"
  by (simp add: deleteTag_def fetchManifests_def truthy_def mediaTypes_def Let_def
      split: prod.splits option.splits sum.splits)

lemma deleteTag_never_rejects: "fst (deleteTag reg repository tag s) = Inr ()"
  by (simp add: deleteTag_eq Let_def split: option.splits sum.splits)

lemma take_delete_url:
  "take (length (delete_url repository [])) (delete_url repository d) = delete_url repository []"
  by (simp add: delete_url_def)

lemma tag_steps_ok_shapes:
  "ls = [Lookup (manifest_url repository tag)]
     \<or> ls = [Lookup (manifest_url repository tag), Lookup (manifest_url repository tag)]
   \<Longrightarrow> tag_steps_ok repository tag (ls @ [Outcome tag False])
     \<and> tag_steps_ok repository tag (ls @ [Delete (delete_url repository d), Outcome tag ok])"
  by (auto simp: tag_steps_ok_def take_delete_url)

lemma deleteTag_steps:
  "\<exists>es. events (snd (deleteTag reg repository tag s)) = events s @ es
      \<and> tag_steps_ok repository tag (actions es)"
proof -
  let ?P = "fetchManifests_probe reg repository tag
                [''application/vnd.docker.distribution.manifest.v2+json'',
                 ''application/vnd.oci.image.index.v1+json''] s"
  from probe_lookups [of reg repository tag _ _ s] obtain ls where
    ls: "events (snd ?P) = events s @ ls"
      "actions ls = [Lookup (manifest_url repository tag)]
         \<or> actions ls = [Lookup (manifest_url repository tag),
                          Lookup (manifest_url repository tag)]"
    by blast
  note ok = tag_steps_ok_shapes [OF ls(2)]
  have fail: "\<exists>es. events (observe (ErrorTagDeleteFailed tag repository) (snd ?P)) = events s @ es
      \<and> tag_steps_ok repository tag (actions es)"
    using ls(1) ok by (intro exI [of _ "ls @ [ErrorTagDeleteFailed tag repository]"]) simp
  show ?thesis
  proof (cases "fst ?P")
    case None
    with fail show ?thesis by (simp add: deleteTag_eq Let_def)
  next
    case (Some m)
    show ?thesis
    proof (cases "truthy (mr_digest m)")
      case False
      with Some fail show ?thesis by (simp add: deleteTag_eq Let_def)
    next
      case True
      let ?D = "apiClient_delete reg (delete_url repository (the (mr_digest m))) (snd ?P)"
      from apiClient_delete_events [of reg "delete_url repository (the (mr_digest m))" "snd ?P"]
      obtain ds where ds: "events (snd ?D) = events (snd ?P) @ ds"
        "actions ds = [Delete (delete_url repository (the (mr_digest m)))]"
        by blast
      show ?thesis
      proof (cases "fst ?D")
        case (Inl e)
        have "events (snd (deleteTag reg repository tag s)) =
                events s @ (ls @ ds @ [ErrorTagDeleteFailed tag repository])"
          using Some True Inl by (simp add: deleteTag_eq Let_def ds(1) ls(1))
        moreover have "tag_steps_ok repository tag
            (actions (ls @ ds @ [ErrorTagDeleteFailed tag repository]))"
          using ok by (simp add: ds(2))
        ultimately show ?thesis by blast
      next
        case (Inr r)
        have "events (snd (deleteTag reg repository tag s)) =
                events s @ (ls @ ds @ [LogTagDeleted tag repository])"
          using Some True Inr by (simp add: deleteTag_eq Let_def ds(1) ls(1))
        moreover have "tag_steps_ok repository tag
            (actions (ls @ ds @ [LogTagDeleted tag repository]))"
          using ok by (simp add: ds(2))
        ultimately show ?thesis by blast
      qed
    qed
  qed
qed


lemma apiClient_delete_run:
  assumes "out = fst (reg (registry_state s) (config_of (auth_token s) ''delete'' url []))"
  shows "events (snd (apiClient_delete reg url s)) =
           events s @ Sent (config_of (auth_token s) ''delete'' url []) #
             (if request_failed out then [LogApiError] else [])
       \<and> (request_failed out \<longrightarrow> (\<exists>e. fst (apiClient_delete reg url s) = Inl e))
       \<and> (\<not> request_failed out \<longrightarrow> (\<exists>r. fst (apiClient_delete reg url s) = Inr r))"
  by (auto simp: assms apiClient_delete_def apiClient_request_eq Let_def request_failed_def
      split: axios_outcome.splits)

text \<open>What one tag leaves after its lookups, by the result of the resolution.\<close>

lemma deleteTag_actions:
  assumes "P = fetchManifests_probe reg repository tag
                [''application/vnd.docker.distribution.manifest.v2+json'',
                 ''application/vnd.oci.image.index.v1+json''] t"
  shows "(\<forall>m d. fst P = Some m \<and> mr_digest m = Some d \<and> d \<noteq> [] \<longrightarrow>
            actions (new_events t (snd (deleteTag reg repository tag t))) =
              actions (new_events t (snd P)) @
                [Delete (delete_url repository d),
                 Outcome tag (\<not> request_failed (fst (reg (registry_state (snd P))
                    (config_of (auth_token (snd P)) ''delete''
                       (delete_url repository d) []))))])
       \<and> (fst P = None \<or> (\<exists>m. fst P = Some m \<and> \<not> truthy (mr_digest m)) \<longrightarrow>
            actions (new_events t (snd (deleteTag reg repository tag t))) =
              actions (new_events t (snd P)) @ [Outcome tag False])"
proof (intro conjI allI impI)
  from probe_lookups [of reg repository tag _ _ t] obtain ls where
    ls: "events (snd P) = events t @ ls" unfolding assms by blast
  then have nl: "new_events t (snd P) = ls" by simp
  {
    fix m d
    assume h: "fst P = Some m \<and> mr_digest m = Some d \<and> d \<noteq> []"
    then have tr: "truthy (mr_digest m)" and the_d: "the (mr_digest m) = d"
      by (simp_all add: truthy_def)
    let ?c = "config_of (auth_token (snd P)) ''delete'' (delete_url repository d) []"
    let ?out = "fst (reg (registry_state (snd P)) ?c)"
    let ?D = "apiClient_delete reg (delete_url repository d) (snd P)"
    note run = apiClient_delete_run [where reg = reg and s = "snd P"
        and url = "delete_url repository d", OF refl]
    show "actions (new_events t (snd (deleteTag reg repository tag t))) =
              actions (new_events t (snd P)) @
                [Delete (delete_url repository d), Outcome tag (\<not> request_failed ?out)]"
    proof (cases "request_failed ?out")
      case True
      with run obtain e where e: "fst ?D = Inl e" by blast
      from run True have ev: "events (snd ?D) = events (snd P) @ [Sent ?c, LogApiError]"
        by simp
      have "events (snd (deleteTag reg repository tag t)) =
              events t @ (ls @ [Sent ?c, LogApiError, ErrorTagDeleteFailed tag repository])"
        using h tr the_d e
        by (simp add: deleteTag_eq Let_def assms [symmetric] ev ls)
      then have "new_events t (snd (deleteTag reg repository tag t)) =
              ls @ [Sent ?c, LogApiError, ErrorTagDeleteFailed tag repository]"
        by (rule new_events_append)
      with True show ?thesis by (simp add: nl)
    next
      case False
      with run obtain r where r: "fst ?D = Inr r" by blast
      from run False have ev: "events (snd ?D) = events (snd P) @ [Sent ?c]" by simp
      have "events (snd (deleteTag reg repository tag t)) =
              events t @ (ls @ [Sent ?c, LogTagDeleted tag repository])"
        using h tr the_d r
        by (simp add: deleteTag_eq Let_def assms [symmetric] ev ls)
      then have "new_events t (snd (deleteTag reg repository tag t)) =
              ls @ [Sent ?c, LogTagDeleted tag repository]"
        by (rule new_events_append)
      with False show ?thesis by (simp add: nl)
    qed
  }
  {
    assume h: "fst P = None \<or> (\<exists>m. fst P = Some m \<and> \<not> truthy (mr_digest m))"
    have "events (snd (deleteTag reg repository tag t)) =
              events t @ (ls @ [ErrorTagDeleteFailed tag repository])"
      using h by (auto simp: deleteTag_eq Let_def assms [symmetric] ls)
    then have "new_events t (snd (deleteTag reg repository tag t)) =
              ls @ [ErrorTagDeleteFailed tag repository]"
      by (rule new_events_append)
    then show "actions (new_events t (snd (deleteTag reg repository tag t))) =
              actions (new_events t (snd P)) @ [Outcome tag False]"
      by (simp add: nl)
  }
qed

lemma resolution_lookups:
  "actions (new_events t (snd (fetchManifests reg repository tag None t))) =
       [Lookup (manifest_url repository tag)]
   \<or> actions (new_events t (snd (fetchManifests reg repository tag None t))) =
       [Lookup (manifest_url repository tag), Lookup (manifest_url repository tag)]"
proof -
  have n: "\<not> truthy None" by (simp add: truthy_def)
  from probe_lookups [of reg repository tag
      "''application/vnd.docker.distribution.manifest.v2+json''"
      "''application/vnd.oci.image.index.v1+json''" t]
  show ?thesis by (auto simp: fetchManifests_probing [OF n])
qed

lemma deleteTags_never_rejects: "fst (deleteTags reg repository tags s) = Inr ()"
proof (induction tags arbitrary: s)
  case Nil
  show ?case by simp
next
  case (Cons tag tags)
  from deleteTag_never_rejects [of reg repository tag s] Cons show ?case
    by (cases "deleteTag reg repository tag s") simp
qed

lemma deleteTags_Cons:
  "deleteTags reg repository (tag # tags) s =
     deleteTags reg repository tags (snd (deleteTag reg repository tag s))"
  using deleteTag_never_rejects [of reg repository tag s]
  by (cases "deleteTag reg repository tag s") simp

lemma deleteTags_append:
  "deleteTags reg repository (pre @ post) s =
     deleteTags reg repository post (snd (deleteTags reg repository pre s))"
proof (induction pre arbitrary: s)
  case Nil
  show ?case by simp
next
  case (Cons tag pre)
  then show ?case by (simp only: append_Cons deleteTags_Cons)
qed

lemma deleteTags_steps:
  "\<exists>es segs. events (snd (deleteTags reg repository tags s)) = events s @ es
      \<and> actions es = concat segs \<and> list_all2 (tag_steps_ok repository) tags segs"
proof (induction tags arbitrary: s)
  case Nil
  show ?case by (intro exI [of _ "[]"]) simp
next
  case (Cons tag tags)
  let ?s1 = "snd (deleteTag reg repository tag s)"
  from deleteTag_steps [of reg repository tag s] obtain es1 where
    es1: "events ?s1 = events s @ es1" "tag_steps_ok repository tag (actions es1)" by blast
  from Cons [of ?s1] obtain es segs where
    es: "events (snd (deleteTags reg repository tags ?s1)) = events ?s1 @ es"
      "actions es = concat segs" "list_all2 (tag_steps_ok repository) tags segs" by blast
  have "events (snd (deleteTags reg repository (tag # tags) s)) = events s @ (es1 @ es)"
    by (simp only: deleteTags_Cons es(1) es1(1) append_assoc)
  moreover have "actions (es1 @ es) = concat (actions es1 # segs)"
    by (simp add: es(2))
  moreover have "list_all2 (tag_steps_ok repository) (tag # tags) (actions es1 # segs)"
    using es1(2) es(3) by simp
  ultimately show ?case by blast
qed

text \<open>
  C2. For every registry, repository, list of tags and starting state: \<open>deleteTags\<close>
  never rejects; the lookups, delete calls and final console lines it produces are the
  concatenation, in the order of the tags, of one segment for each tag, and a segment
  is one or two lookups of that tag's manifest (one resolution), then either the failure
  line of the tag alone or a single delete call followed by one line of the tag;
  whatever happened to the tags before it, each tag is handled by \<open>deleteTag\<close> in the
  state its predecessors left and the rest of the list follows. For each tag, in any
  state: after the lookups of its resolution, a resolution that gives a non-empty digest
  is followed by exactly the delete call for that digest and then by the failure line
  of the tag when the delete request fails (no response, or a status that is not 2xx)
  and by the success line when it does not; a resolution that gives \<open>null\<close>, or no
  digest, is followed by the failure line of the tag and nothing else, so no delete
  call is made.
\<close>

theorem deleteTags_continues_past_failures:
  "fst (deleteTags reg repository tags s) = Inr ()
   \<and> (\<exists>segs. actions (new_events s (snd (deleteTags reg repository tags s))) = concat segs
         \<and> list_all2 (tag_steps_ok repository) tags segs)
   \<and> (\<forall>pre tag post. tags = pre @ tag # post \<longrightarrow>
         deleteTags reg repository tags s =
           deleteTags reg repository post
             (snd (deleteTag reg repository tag (snd (deleteTags reg repository pre s)))))
   \<and> (\<forall>tag t. actions (new_events t (snd (fetchManifests reg repository tag None t))) =
                 [Lookup (manifest_url repository tag)]
              \<or> actions (new_events t (snd (fetchManifests reg repository tag None t))) =
                 [Lookup (manifest_url repository tag), Lookup (manifest_url repository tag)])
   \<and> (\<forall>tag t t1 m d.
         t1 = snd (fetchManifests reg repository tag None t)
         \<and> fst (fetchManifests reg repository tag None t) = Inr (Some m)
         \<and> mr_digest m = Some d \<and> d \<noteq> []
         \<and> request_failed (fst (reg (registry_state t1)
              (config_of (auth_token t1) ''delete'' (delete_url repository d) []))) \<longrightarrow>
         actions (new_events t (snd (deleteTag reg repository tag t))) =
           actions (new_events t t1) @ [Delete (delete_url repository d), Outcome tag False])
   \<and> (\<forall>tag t t1 m d.
         t1 = snd (fetchManifests reg repository tag None t)
         \<and> fst (fetchManifests reg repository tag None t) = Inr (Some m)
         \<and> mr_digest m = Some d \<and> d \<noteq> []
         \<and> \<not> request_failed (fst (reg (registry_state t1)
              (config_of (auth_token t1) ''delete'' (delete_url repository d) []))) \<longrightarrow>
         actions (new_events t (snd (deleteTag reg repository tag t))) =
           actions (new_events t t1) @ [Delete (delete_url repository d), Outcome tag True])
   \<and> (\<forall>tag t. fst (fetchManifests reg repository tag None t) = Inr None
              \<or> (\<exists>m. fst (fetchManifests reg repository tag None t) = Inr (Some m)
                      \<and> \<not> truthy (mr_digest m)) \<longrightarrow>
         actions (new_events t (snd (deleteTag reg repository tag t))) =
           actions (new_events t (snd (fetchManifests reg repository tag None t)))
             @ [Outcome tag False])"
proof -
  have n: "\<not> truthy None" by (simp add: truthy_def)
  note f = fetchManifests_probing [OF n]
  have 1: "fst (deleteTags reg repository tags s) = Inr ()" by (rule deleteTags_never_rejects)
  from deleteTags_steps [of reg repository tags s] obtain es segs where
    "events (snd (deleteTags reg repository tags s)) = events s @ es"
    "actions es = concat segs" "list_all2 (tag_steps_ok repository) tags segs" by blast
  then have 2: "\<exists>segs. actions (new_events s (snd (deleteTags reg repository tags s))) = concat segs
         \<and> list_all2 (tag_steps_ok repository) tags segs"
    by (intro exI [of _ segs]) simp
  have 3: "\<forall>pre tag post. tags = pre @ tag # post \<longrightarrow>
         deleteTags reg repository tags s =
           deleteTags reg repository post
             (snd (deleteTag reg repository tag (snd (deleteTags reg repository pre s))))"
  proof (intro allI impI)
    fix pre tag post assume "tags = pre @ tag # post"
    then show "deleteTags reg repository tags s =
           deleteTags reg repository post
             (snd (deleteTag reg repository tag (snd (deleteTags reg repository pre s))))"
      by (simp only: deleteTags_append deleteTags_Cons)
  qed
  have 4: "\<forall>tag t. actions (new_events t (snd (fetchManifests reg repository tag None t))) =
                 [Lookup (manifest_url repository tag)]
              \<or> actions (new_events t (snd (fetchManifests reg repository tag None t))) =
                 [Lookup (manifest_url repository tag), Lookup (manifest_url repository tag)]"
    using resolution_lookups by blast
  have 5: "\<forall>tag t t1 m d.
         t1 = snd (fetchManifests reg repository tag None t)
         \<and> fst (fetchManifests reg repository tag None t) = Inr (Some m)
         \<and> mr_digest m = Some d \<and> d \<noteq> []
         \<and> request_failed (fst (reg (registry_state t1)
              (config_of (auth_token t1) ''delete'' (delete_url repository d) []))) \<longrightarrow>
         actions (new_events t (snd (deleteTag reg repository tag t))) =
           actions (new_events t t1) @ [Delete (delete_url repository d), Outcome tag False]"
  proof (intro allI impI)
    fix tag t t1 m d
    assume h: "t1 = snd (fetchManifests reg repository tag None t)
         \<and> fst (fetchManifests reg repository tag None t) = Inr (Some m)
         \<and> mr_digest m = Some d \<and> d \<noteq> []
         \<and> request_failed (fst (reg (registry_state t1)
              (config_of (auth_token t1) ''delete'' (delete_url repository d) [])))"
    from deleteTag_actions [OF refl, of reg repository tag t] h
    show "actions (new_events t (snd (deleteTag reg repository tag t))) =
           actions (new_events t t1) @ [Delete (delete_url repository d), Outcome tag False]"
      by (auto simp: f)
  qed
  have 6: "\<forall>tag t t1 m d.
         t1 = snd (fetchManifests reg repository tag None t)
         \<and> fst (fetchManifests reg repository tag None t) = Inr (Some m)
         \<and> mr_digest m = Some d \<and> d \<noteq> []
         \<and> \<not> request_failed (fst (reg (registry_state t1)
              (config_of (auth_token t1) ''delete'' (delete_url repository d) []))) \<longrightarrow>
         actions (new_events t (snd (deleteTag reg repository tag t))) =
           actions (new_events t t1) @ [Delete (delete_url repository d), Outcome tag True]"
  proof (intro allI impI)
    fix tag t t1 m d
    assume h: "t1 = snd (fetchManifests reg repository tag None t)
         \<and> fst (fetchManifests reg repository tag None t) = Inr (Some m)
         \<and> mr_digest m = Some d \<and> d \<noteq> []
         \<and> \<not> request_failed (fst (reg (registry_state t1)
              (config_of (auth_token t1) ''delete'' (delete_url repository d) [])))"
    from deleteTag_actions [OF refl, of reg repository tag t] h
    show "actions (new_events t (snd (deleteTag reg repository tag t))) =
           actions (new_events t t1) @ [Delete (delete_url repository d), Outcome tag True]"
      by (auto simp: f)
  qed
  have 7: "\<forall>tag t. fst (fetchManifests reg repository tag None t) = Inr None
              \<or> (\<exists>m. fst (fetchManifests reg repository tag None t) = Inr (Some m)
                      \<and> \<not> truthy (mr_digest m)) \<longrightarrow>
         actions (new_events t (snd (deleteTag reg repository tag t))) =
           actions (new_events t (snd (fetchManifests reg repository tag None t)))
             @ [Outcome tag False]"
  proof (intro allI impI)
    fix tag t
    assume h: "fst (fetchManifests reg repository tag None t) = Inr None
              \<or> (\<exists>m. fst (fetchManifests reg repository tag None t) = Inr (Some m)
                      \<and> \<not> truthy (mr_digest m))"
    from deleteTag_actions [OF refl, of reg repository tag t] h
    show "actions (new_events t (snd (deleteTag reg repository tag t))) =
           actions (new_events t (snd (fetchManifests reg repository tag None t)))
             @ [Outcome tag False]"
      by (auto simp: f)
  qed
  from 1 2 3 4 5 6 7 show ?thesis by blast
qed

theorem deleteTags_continues_past_failures_witness:
  "[''A'', ''B'', ''C''] = [''A''] @ ''B'' # [''C'']
   \<and> fst (deleteTags fake_registry ''app'' [''A'', ''B'', ''C''] \<lparr>registry_state = [(''A'', ''sha256:aa''), (''C'', ''sha256:cc'')], auth_token = None,
         events = []\<rparr>) = Inr ()
   \<and> actions (new_events \<lparr>registry_state = [(''A'', ''sha256:aa''), (''C'', ''sha256:cc'')], auth_token = None,
         events = []\<rparr> (snd (deleteTags fake_registry ''app'' [''A'', ''B'', ''C''] \<lparr>registry_state = [(''A'', ''sha256:aa''), (''C'', ''sha256:cc'')], auth_token = None,
         events = []\<rparr>))) =
       [Lookup ''proxy/app/manifests/A'', Delete ''/proxy/app/manifests/sha256:aa'',
        Outcome ''A'' True,
        Lookup ''proxy/app/manifests/B'', Lookup ''proxy/app/manifests/B'',
        Outcome ''B'' False,
        Lookup ''proxy/app/manifests/C'', Delete ''/proxy/app/manifests/sha256:cc'',
        Outcome ''C'' True]
   \<and> deleteTags fake_registry ''app'' [''A'', ''B'', ''C''] \<lparr>registry_state = [(''A'', ''sha256:aa''), (''C'', ''sha256:cc'')], auth_token = None,
         events = []\<rparr> =
       deleteTags fake_registry ''app'' [''C'']
         (snd (deleteTag fake_registry ''app'' ''B''
            (snd (deleteTags fake_registry ''app'' [''A''] \<lparr>registry_state = [(''A'', ''sha256:aa''), (''C'', ''sha256:cc'')], auth_token = None,
         events = []\<rparr>))))
   \<and> (fst (fetchManifests fake_registry ''app'' ''A'' None \<lparr>registry_state = [(''A'', ''sha256:aa''), (''C'', ''sha256:cc'')], auth_token = None,
         events = []\<rparr>) = Inr (Some \<lparr>mr_digest = Some ''sha256:aa'', mr_data = JObj [(''schemaVersion'', JNum 2)]\<rparr>)
      \<and> mr_digest \<lparr>mr_digest = Some ''sha256:aa'', mr_data = JObj [(''schemaVersion'', JNum 2)]\<rparr> = Some ''sha256:aa'' \<and> ''sha256:aa'' \<noteq> []
      \<and> \<not> request_failed (fst (fake_registry
            (registry_state (snd (fetchManifests fake_registry ''app'' ''A'' None \<lparr>registry_state = [(''A'', ''sha256:aa''), (''C'', ''sha256:cc'')], auth_token = None,
         events = []\<rparr>)))
            (config_of (auth_token (snd (fetchManifests fake_registry ''app'' ''A'' None \<lparr>registry_state = [(''A'', ''sha256:aa''), (''C'', ''sha256:cc'')], auth_token = None,
         events = []\<rparr>)))
               ''delete'' (delete_url ''app'' ''sha256:aa'') []))))
   \<and> actions (new_events \<lparr>registry_state = [(''A'', ''sha256:aa''), (''C'', ''sha256:cc'')], auth_token = None,
         events = []\<rparr> (snd (deleteTag fake_registry ''app'' ''A'' \<lparr>registry_state = [(''A'', ''sha256:aa''), (''C'', ''sha256:cc'')], auth_token = None,
         events = []\<rparr>))) =
       [Lookup ''proxy/app/manifests/A'', Delete ''/proxy/app/manifests/sha256:aa'',
        Outcome ''A'' True]
   \<and> (fst (fetchManifests readonly_registry ''app'' ''A'' None \<lparr>registry_state = (), auth_token = None, events = []\<rparr>) = Inr (Some \<lparr>mr_digest = Some ''sha256:aa'', mr_data = JObj [(''schemaVersion'', JNum 2)]\<rparr>)
      \<and> mr_digest \<lparr>mr_digest = Some ''sha256:aa'', mr_data = JObj [(''schemaVersion'', JNum 2)]\<rparr> = Some ''sha256:aa'' \<and> ''sha256:aa'' \<noteq> []
      \<and> request_failed (fst (readonly_registry
            (registry_state (snd (fetchManifests readonly_registry ''app'' ''A'' None \<lparr>registry_state = (), auth_token = None, events = []\<rparr>)))
            (config_of (auth_token (snd (fetchManifests readonly_registry ''app'' ''A'' None \<lparr>registry_state = (), auth_token = None, events = []\<rparr>)))
               ''delete'' (delete_url ''app'' ''sha256:aa'') []))))
   \<and> actions (new_events \<lparr>registry_state = (), auth_token = None, events = []\<rparr> (snd (deleteTag readonly_registry ''app'' ''A'' \<lparr>registry_state = (), auth_token = None, events = []\<rparr>))) =
       [Lookup ''proxy/app/manifests/A'', Delete ''/proxy/app/manifests/sha256:aa'',
        Outcome ''A'' False]
   \<and> fst (fetchManifests fake_registry ''app'' ''B'' None \<lparr>registry_state = [(''A'', ''sha256:aa''), (''C'', ''sha256:cc'')], auth_token = None,
         events = []\<rparr>) = Inr None
   \<and> actions (new_events \<lparr>registry_state = [(''A'', ''sha256:aa''), (''C'', ''sha256:cc'')], auth_token = None,
         events = []\<rparr> (snd (deleteTag fake_registry ''app'' ''B'' \<lparr>registry_state = [(''A'', ''sha256:aa''), (''C'', ''sha256:cc'')], auth_token = None,
         events = []\<rparr>))) =
       [Lookup ''proxy/app/manifests/B'', Lookup ''proxy/app/manifests/B'',
        Outcome ''B'' False]"
proof -
  let ?s = "\<lparr>registry_state = [(''A'', ''sha256:aa''), (''C'', ''sha256:cc'')],
             auth_token = None, events = []\<rparr>"
  let ?u = "\<lparr>registry_state = (), auth_token = None, events = []\<rparr>"
  let ?m = "\<lparr>mr_digest = Some ''sha256:aa'', mr_data = JObj [(''schemaVersion'', JNum 2)]\<rparr>"
  let ?fa = "fetchManifests fake_registry ''app'' ''A'' None ?s"
  let ?fb = "fetchManifests fake_registry ''app'' ''B'' None ?s"
  let ?ra = "fetchManifests readonly_registry ''app'' ''A'' None ?u"
  note inst = deleteTags_continues_past_failures [of fake_registry "''app''"
      "[''A'', ''B'', ''C'']" ?s]
  note ro = deleteTags_continues_past_failures [of readonly_registry "''app''" "[''A'']" ?u]
  have split: "[''A'', ''B'', ''C''] = [''A''] @ ''B'' # [''C'']" by simp
  have a: "fst ?fa = Inr (Some ?m) \<and> mr_digest ?m = Some ''sha256:aa'' \<and> ''sha256:aa'' \<noteq> []
      \<and> \<not> request_failed (fst (fake_registry (registry_state (snd ?fa))
            (config_of (auth_token (snd ?fa)) ''delete'' (delete_url ''app'' ''sha256:aa'') [])))"
    by code_simp
  have la: "actions (new_events ?s (snd ?fa)) = [Lookup ''proxy/app/manifests/A'']"
    by code_simp
  have r: "fst ?ra = Inr (Some ?m) \<and> mr_digest ?m = Some ''sha256:aa'' \<and> ''sha256:aa'' \<noteq> []
      \<and> request_failed (fst (readonly_registry (registry_state (snd ?ra))
            (config_of (auth_token (snd ?ra)) ''delete'' (delete_url ''app'' ''sha256:aa'') [])))"
    by code_simp
  have lr: "actions (new_events ?u (snd ?ra)) = [Lookup ''proxy/app/manifests/A'']"
    by code_simp
  have b: "fst ?fb = Inr None" by code_simp
  have lb: "actions (new_events ?s (snd ?fb)) =
      [Lookup ''proxy/app/manifests/B'', Lookup ''proxy/app/manifests/B'']"
    by code_simp
  have du: "delete_url ''app'' ''sha256:aa'' = ''/proxy/app/manifests/sha256:aa''"
    by (simp add: delete_url_def)
  have run: "actions (new_events ?s (snd (deleteTags fake_registry ''app''
               [''A'', ''B'', ''C''] ?s))) =
       [Lookup ''proxy/app/manifests/A'', Delete ''/proxy/app/manifests/sha256:aa'',
        Outcome ''A'' True,
        Lookup ''proxy/app/manifests/B'', Lookup ''proxy/app/manifests/B'',
        Outcome ''B'' False,
        Lookup ''proxy/app/manifests/C'', Delete ''/proxy/app/manifests/sha256:cc'',
        Outcome ''C'' True]"
    by code_simp
  from inst have 1: "fst (deleteTags fake_registry ''app'' [''A'', ''B'', ''C''] ?s) = Inr ()"
    by (rule conjunct1)
  note seq = inst [THEN conjunct2, THEN conjunct2, THEN conjunct1, rule_format,
      of "[''A'']" "''B''" "[''C'']"]
  from seq [OF split] have 2: "deleteTags fake_registry ''app'' [''A'', ''B'', ''C''] ?s =
       deleteTags fake_registry ''app'' [''C'']
         (snd (deleteTag fake_registry ''app'' ''B''
            (snd (deleteTags fake_registry ''app'' [''A''] ?s))))" .
  note succeeded = inst [THEN conjunct2, THEN conjunct2, THEN conjunct2, THEN conjunct2,
      THEN conjunct2, THEN conjunct1, rule_format,
      of "snd ?fa" "''A''" ?s ?m "''sha256:aa''"]
  from a have ha: "snd ?fa = snd ?fa \<and> fst ?fa = Inr (Some ?m)
      \<and> mr_digest ?m = Some ''sha256:aa'' \<and> ''sha256:aa'' \<noteq> []
      \<and> \<not> request_failed (fst (fake_registry (registry_state (snd ?fa))
            (config_of (auth_token (snd ?fa)) ''delete'' (delete_url ''app'' ''sha256:aa'') [])))"
    by blast
  from succeeded [OF ha]
  have "actions (new_events ?s (snd (deleteTag fake_registry ''app'' ''A'' ?s))) =
      actions (new_events ?s (snd ?fa)) @ [Delete (delete_url ''app'' ''sha256:aa''),
        Outcome ''A'' True]" .
  then have 3: "actions (new_events ?s (snd (deleteTag fake_registry ''app'' ''A'' ?s))) =
       [Lookup ''proxy/app/manifests/A'', Delete ''/proxy/app/manifests/sha256:aa'',
        Outcome ''A'' True]"
    by (simp only: la du append_Cons append_Nil)
  note refused = ro [THEN conjunct2, THEN conjunct2, THEN conjunct2, THEN conjunct2,
      THEN conjunct1, rule_format, of "snd ?ra" "''A''" ?u ?m "''sha256:aa''"]
  from r have hr: "snd ?ra = snd ?ra \<and> fst ?ra = Inr (Some ?m)
      \<and> mr_digest ?m = Some ''sha256:aa'' \<and> ''sha256:aa'' \<noteq> []
      \<and> request_failed (fst (readonly_registry (registry_state (snd ?ra))
            (config_of (auth_token (snd ?ra)) ''delete'' (delete_url ''app'' ''sha256:aa'') [])))"
    by blast
  from refused [OF hr]
  have "actions (new_events ?u (snd (deleteTag readonly_registry ''app'' ''A'' ?u))) =
      actions (new_events ?u (snd ?ra)) @ [Delete (delete_url ''app'' ''sha256:aa''),
        Outcome ''A'' False]" .
  then have 4: "actions (new_events ?u (snd (deleteTag readonly_registry ''app'' ''A'' ?u))) =
       [Lookup ''proxy/app/manifests/A'', Delete ''/proxy/app/manifests/sha256:aa'',
        Outcome ''A'' False]"
    by (simp only: lr du append_Cons append_Nil)
  note unresolved = inst [THEN conjunct2, THEN conjunct2, THEN conjunct2, THEN conjunct2,
      THEN conjunct2, THEN conjunct2, rule_format, of "''B''" ?s]
  from b have hb: "fst ?fb = Inr None
      \<or> (\<exists>m. fst ?fb = Inr (Some m) \<and> \<not> truthy (mr_digest m))"
    by (rule disjI1)
  from unresolved [OF hb]
  have "actions (new_events ?s (snd (deleteTag fake_registry ''app'' ''B'' ?s))) =
      actions (new_events ?s (snd ?fb)) @ [Outcome ''B'' False]" .
  then have 5: "actions (new_events ?s (snd (deleteTag fake_registry ''app'' ''B'' ?s))) =
       [Lookup ''proxy/app/manifests/B'', Lookup ''proxy/app/manifests/B'',
        Outcome ''B'' False]"
    by (simp only: lb append_Cons append_Nil)
  from split a r b run 1 2 3 4 5 show ?thesis by blast
qed

end
